theory Spec2Isabelle
  imports Main
begin

section \<open>Python primitives used by the service\<close>

text \<open>
  The service is one Python module, \<^verbatim>\<open>main.py\<close>. A Python \<^verbatim>\<open>str\<close> is modelled as a
  \<^typ>\<open>string\<close> whose characters are the code points below 256; Python integers are
  \<^typ>\<open>int\<close>. Code points from 256 on (other scripts' decimal digits and spaces) are
  outside the model.
\<close>

subsection \<open>Exceptions\<close>

text \<open>
  The exceptions the module can meet. \<open>Exception msg\<close> is \<^verbatim>\<open>raise Exception(msg)\<close> of the
  module itself; \<open>ToolError msg\<close> is an exception raised inside one of the two external
  libraries, \<open>msg\<close> being its \<^verbatim>\<open>str(e)\<close>.
\<close>

datatype pyexn =
    ValueError
  | TypeError
  | AttributeError
  | FileNotFoundError
  | IsADirectoryError
  | Exception string
  | ToolError string

subsection \<open>\<^verbatim>\<open>str.split(':')\<close>\<close>

text \<open>
  Splitting on a separator character: every occurrence separates two fields, empty fields
  are kept, and the result is never empty (\<^verbatim>\<open>''.split(':') == ['']\<close>).
\<close>

fun split :: "char \<Rightarrow> string \<Rightarrow> string list" where
  "split sep [] = [[]]"
| "split sep (c # cs) =
     (if c = sep then [] # split sep cs
      else (case split sep cs of
              [] \<Rightarrow> [[c]]
            | f # fs \<Rightarrow> (c # f) # fs))"

subsection \<open>\<^verbatim>\<open>int(str)\<close>\<close>

text \<open>
  \<^verbatim>\<open>int(s)\<close> in base 10 accepts: optional white space, an optional sign, decimal digits in
  which single underscores may stand between two digits, optional white space. Anything
  else raises \<^verbatim>\<open>ValueError\<close>, here \<open>None\<close>. The white space of \<^verbatim>\<open>int\<close> is tab, line feed,
  vertical tab, form feed, carriage return and space, and of the code points from 128 to
  255 the two Unicode spaces U+0085 and U+00A0. A numeral of more than 4300 digits,
  CPython's default limit for the conversion of a string, raises \<^verbatim>\<open>ValueError\<close> too; the
  digits are counted without the underscores and with the leading zeros.
\<close>

definition py_isspace :: "char \<Rightarrow> bool" where
  "py_isspace c \<longleftrightarrow> (of_char c :: nat) \<in> {9, 10, 11, 12, 13, 32, 133, 160}"

definition is_digit :: "char \<Rightarrow> bool" where
  "is_digit c \<longleftrightarrow> 48 \<le> (of_char c :: nat) \<and> (of_char c :: nat) \<le> 57"

definition digit_val :: "char \<Rightarrow> nat" where
  "digit_val c = of_char c - 48"

definition dec_val :: "string \<Rightarrow> nat" where
  "dec_val ds = foldl (\<lambda>a c. 10 * a + digit_val c) 0 ds"

fun double_underscore :: "string \<Rightarrow> bool" where
  "double_underscore (a # b # cs) =
     ((a = CHR ''_'' \<and> b = CHR ''_'') \<or> double_underscore (b # cs))"
| "double_underscore _ = False"

definition in_literal :: "char \<Rightarrow> bool" where
  "in_literal c \<longleftrightarrow> is_digit c \<or> c = CHR ''_''"

definition int_max_str_digits :: nat where
  "int_max_str_digits = 4300"

definition py_int :: "string \<Rightarrow> int option" where
  "py_int s =
     (let s1 = dropWhile py_isspace s;
          neg = (case s1 of [] \<Rightarrow> False | c # _ \<Rightarrow> c = CHR ''-'');
          s2 = (case s1 of [] \<Rightarrow> []
                | c # r \<Rightarrow> if c = CHR ''+'' \<or> c = CHR ''-'' then r else s1);
          body = takeWhile in_literal s2;
          rest = dropWhile py_isspace (dropWhile in_literal s2)
      in if body = [] \<or> hd body = CHR ''_'' \<or> last body = CHR ''_''
            \<or> double_underscore body \<or> rest \<noteq> []
            \<or> length (filter is_digit body) > int_max_str_digits
         then None
         else Some ((if neg then - 1 else 1) * int (dec_val (filter is_digit body))))"

section \<open>The time parser\<close>

text \<open>
  \<^verbatim>\<open>
  def time_to_seconds(time_str: str) -> int:
      h, m, s = map(int, time_str.split(':'))
      return h * 3600 + m * 60 + s
  \<close>
  Unpacking into three names raises \<^verbatim>\<open>ValueError\<close> unless there are exactly three fields,
  and so does \<^verbatim>\<open>int\<close> on a field it does not accept.
\<close>

definition time_to_seconds :: "string \<Rightarrow> pyexn + int" where
  "time_to_seconds time_str =
     (case map py_int (split (CHR '':'') time_str) of
        [Some h, Some m, Some s] \<Rightarrow> Inr (h * 3600 + m * 60 + s)
      | _ \<Rightarrow> Inl ValueError)"

section \<open>Values, requests and responses\<close>

text \<open>
  The extraction tool hands back an untyped dictionary. Its values are modelled by the
  three shapes the module can tell apart: \<^verbatim>\<open>None\<close>, an integer, a string.
  Floating-point durations are outside the model.
\<close>

datatype pyval = PNone | PInt int | PStr string

text \<open>\<^verbatim>\<open>d.get(key, default)\<close>: the default only when the key is absent.\<close>

definition dict_get :: "(string \<Rightarrow> pyval option) \<Rightarrow> string \<Rightarrow> pyval \<Rightarrow> pyval" where
  "dict_get d k dflt = (case d k of None \<Rightarrow> dflt | Some v \<Rightarrow> v)"

text \<open>\<^verbatim>\<open>a > b\<close> for an integer \<open>a\<close>: \<^verbatim>\<open>TypeError\<close> unless \<open>b\<close> is a number.\<close>

definition py_gt :: "int \<Rightarrow> pyval \<Rightarrow> pyexn + bool" where
  "py_gt a v = (case v of PInt b \<Rightarrow> Inr (a > b) | _ \<Rightarrow> Inl TypeError)"

text \<open>\<^verbatim>\<open>str(v)\<close>, as an f-string field renders a value.\<close>

function str_nat :: "nat \<Rightarrow> string" where
  "str_nat n =
     (if n < 10 then [char_of (48 + n)]
      else str_nat (n div 10) @ [char_of (48 + n mod 10)])"
  by pat_completeness auto
termination
  by (relation "measure id") auto

declare str_nat.simps [simp del]

definition str_int :: "int \<Rightarrow> string" where
  "str_int i = (if i < 0 then CHR ''-'' # str_nat (nat (- i)) else str_nat (nat i))"

definition py_str :: "pyval \<Rightarrow> string" where
  "py_str v = (case v of PNone \<Rightarrow> ''None'' | PInt i \<Rightarrow> str_int i | PStr s \<Rightarrow> s)"

text \<open>
  The \<^verbatim>\<open>detail\<close> of an \<^verbatim>\<open>HTTPException\<close> is either a text the module writes out, or
  \<^verbatim>\<open>f"{prefix}{str(e)}"\<close> for a caught exception \<open>e\<close>, kept as the pair of the prefix and
  the exception. An exception that no handler of the module catches leaves the endpoint
  as \<open>Unhandled\<close>.
\<close>

datatype detail = Text string | TextExn string pyexn

datatype failure = HTTPException nat detail | Unhandled pyexn

text \<open>
  \<^verbatim>\<open>
  class VideoRequest(BaseModel):
      url: HttpUrl
      start_time: str  # Format: HH:MM:SS
      end_time: str    # Format: HH:MM:SS
  \<close>
  The handler reads the URL only through \<^verbatim>\<open>str(request.url)\<close>.
\<close>

record video_request =
  url :: string
  start_time :: string
  end_time :: string

record video_info =
  title :: pyval
  duration :: pyval
  thumbnail :: pyval

section \<open>Files, external tools and the world\<close>

text \<open>
  A directory is its listing, in the order \<^verbatim>\<open>os.listdir\<close> returns it: entry names with
  what the module reads of an entry, the time \<^verbatim>\<open>os.path.getctime\<close> reports and whether the
  entry is itself a directory. The file system maps the path of a directory to its
  listing; \<^verbatim>\<open>os.path.join(d, name)\<close> for an entry of \<open>d\<close> is the pair \<open>(d, name)\<close>.
\<close>

record entry =
  ctime :: int
  is_dir :: bool

type_synonym listing = "(string \<times> entry) list"

type_synonym filesystem = "string \<Rightarrow> listing option"

type_synonym file_path = "string \<times> string"

text \<open>What the module asks of the two external tools, in the order it asks.\<close>

datatype event =
    Probe string
  | Download string string
  | Trim file_path file_path int int

record world =
  fs :: filesystem
  trace :: "event list"

text \<open>
  \<^verbatim>\<open>ydl.extract_info(url, download=False)\<close> raises, or returns \<^verbatim>\<open>None\<close> (the options set
  \<^verbatim>\<open>ignoreerrors\<close>), or returns the metadata dictionary.
\<close>

datatype extraction = Raises string | NoInfo | Info "string \<Rightarrow> pyval option"

text \<open>
  Everything the module takes from outside: the platform's temporary directory, the
  formatted clock reading, the name \<^verbatim>\<open>tempfile.TemporaryDirectory()\<close> creates, and the two
  tools as black boxes. A download or a trim may change the file system in any way and
  then return (\<open>None\<close>) or raise (\<open>Some msg\<close>, \<open>msg\<close> the exception's \<^verbatim>\<open>str\<close>).
\<close>

record env =
  gettempdir :: string
  now :: string
  mkdtemp :: string
  extract_info :: "string \<Rightarrow> extraction"
  download :: "string \<Rightarrow> string \<Rightarrow> filesystem \<Rightarrow> filesystem \<times> string option"
  ffmpeg_run :: "file_path \<Rightarrow> file_path \<Rightarrow> int \<Rightarrow> int \<Rightarrow> filesystem
                 \<Rightarrow> filesystem \<times> string option"

subsection \<open>File-system calls\<close>

text \<open>
  \<^verbatim>\<open>os.path.join(a, b)\<close> for a relative \<open>b\<close>: a separator is added unless \<open>a\<close> is empty or
  ends with one.
\<close>

definition path_join :: "string \<Rightarrow> string \<Rightarrow> string" where
  "path_join a b = (if a = [] \<or> last a = CHR ''/'' then a @ b else a @ ''/'' @ b)"

definition makedirs :: "string \<Rightarrow> filesystem \<Rightarrow> filesystem" where
  "makedirs d f = (case f d of None \<Rightarrow> f(d \<mapsto> []) | Some _ \<Rightarrow> f)"

definition listdir :: "string \<Rightarrow> filesystem \<Rightarrow> pyexn + string list" where
  "listdir d f = (case f d of None \<Rightarrow> Inl FileNotFoundError | Some l \<Rightarrow> Inr (map fst l))"

text \<open>\<^verbatim>\<open>os.remove\<close> deletes a file and raises on a directory or a missing entry.\<close>

definition os_remove :: "file_path \<Rightarrow> filesystem \<Rightarrow> pyexn + filesystem" where
  "os_remove p f =
     (case f (fst p) of
        None \<Rightarrow> Inl FileNotFoundError
      | Some l \<Rightarrow>
          (case map_of l (snd p) of
             None \<Rightarrow> Inl FileNotFoundError
           | Some e \<Rightarrow>
               if is_dir e then Inl IsADirectoryError
               else Inr (f(fst p \<mapsto> filter (\<lambda>x. fst x \<noteq> snd p) l))))"

definition startswith :: "string \<Rightarrow> string \<Rightarrow> bool" where
  "startswith s p \<longleftrightarrow> take (length p) s = p"

section \<open>The video-info fetcher\<close>

text \<open>
  \<^verbatim>\<open>
  with yt_dlp.YoutubeDL(ydl_opts) as ydl:
      try:
          info = ydl.extract_info(url, download=False)
          return {
              'title': info.get('title', 'Unknown Title'),
              'duration': info.get('duration', 0),
              'thumbnail': info.get('thumbnail', ''),
          }
      except Exception as e:
          raise HTTPException(status_code=400, detail=f"Error fetching video info: {str(e)}")
  \<close>
  When the tool returns \<^verbatim>\<open>None\<close>, \<^verbatim>\<open>info.get\<close> raises \<^verbatim>\<open>AttributeError\<close> inside the
  \<^verbatim>\<open>try\<close>, and the handler catches that as well.
\<close>

definition get_video_info :: "env \<Rightarrow> string \<Rightarrow> world \<Rightarrow> world \<times> (failure + video_info)" where
  "get_video_info ev u w =
     (let w1 = w\<lparr>trace := trace w @ [Probe u]\<rparr>
      in case extract_info ev u of
           Raises msg \<Rightarrow>
             (w1, Inl (HTTPException 400 (TextExn ''Error fetching video info: '' (ToolError msg))))
         | NoInfo \<Rightarrow>
             (w1, Inl (HTTPException 400 (TextExn ''Error fetching video info: '' AttributeError)))
         | Info info \<Rightarrow>
             (w1, Inr \<lparr>title = dict_get info ''title'' (PStr ''Unknown Title''),
                       duration = dict_get info ''duration'' (PInt 0),
                       thumbnail = dict_get info ''thumbnail'' (PStr [])\<rparr>))"

section \<open>The download-and-trim orchestrator\<close>

text \<open>
  The body of the \<^verbatim>\<open>try\<close> of \<^verbatim>\<open>download_and_trim_video\<close>, with the exception it ends in,
  if any:
  \<^verbatim>\<open>
  with yt_dlp.YoutubeDL(ydl_opts) as ydl:
      ydl.download([url])
  video_file = next((f for f in os.listdir(temp_dir) if f.startswith('video.')), None)
  if not video_file:
      raise Exception("Video file not found after download")
  input_path = os.path.join(temp_dir, video_file)
  start_seconds = time_to_seconds(start_time)
  end_seconds = time_to_seconds(end_time)
  duration = end_seconds - start_seconds
  stream = ffmpeg.input(input_path)
  stream = ffmpeg.output(stream, output_path, ss=start_seconds, t=duration,
                         acodec='copy', vcodec='copy')
  ffmpeg.run(stream, overwrite_output=True, capture_stdout=True, capture_stderr=True)
  \<close>
\<close>

definition download_and_trim_body ::
  "env \<Rightarrow> string \<Rightarrow> string \<Rightarrow> string \<Rightarrow> file_path \<Rightarrow> string \<Rightarrow> world
     \<Rightarrow> world \<times> (pyexn + unit)" where
  "download_and_trim_body ev u st et output_path temp_dir w =
     (case download ev u temp_dir (fs w) of
        (f1, r1) \<Rightarrow>
          (let w1 = w\<lparr>fs := f1, trace := trace w @ [Download u temp_dir]\<rparr>
           in case r1 of
               Some msg \<Rightarrow> (w1, Inl (ToolError msg))
             | None \<Rightarrow>
                (case listdir temp_dir f1 of
                   Inl e \<Rightarrow> (w1, Inl e)
                 | Inr names \<Rightarrow>
                    (case find (\<lambda>f. startswith f ''video.'') names of
                       None \<Rightarrow> (w1, Inl (Exception ''Video file not found after download''))
                     | Some video_file \<Rightarrow>
                        (case time_to_seconds st of
                           Inl e \<Rightarrow> (w1, Inl e)
                         | Inr start_seconds \<Rightarrow>
                            (case time_to_seconds et of
                               Inl e \<Rightarrow> (w1, Inl e)
                             | Inr end_seconds \<Rightarrow>
                                (let input_path = (temp_dir, video_file);
                                     dur = end_seconds - start_seconds
                                 in case ffmpeg_run ev input_path output_path start_seconds dur f1 of
                                      (f2, r2) \<Rightarrow>
                                        (let w2 = w1\<lparr>fs := f2,
                                                    trace := trace w1 @
                                                      [Trim input_path output_path start_seconds dur]\<rparr>
                                         in case r2 of
                                              Some msg \<Rightarrow> (w2, Inl (ToolError msg))
                                            | None \<Rightarrow> (w2, Inr ())))))))))"

text \<open>
  \<^verbatim>\<open>
  with tempfile.TemporaryDirectory() as temp_dir:
      ...
      try:
          <body>
      except Exception as e:
          raise HTTPException(status_code=500, detail=f"Error processing video: {str(e)}")
  \<close>
  Entering the \<^verbatim>\<open>with\<close> creates the directory; leaving it, by a return or by the
  exception, removes the directory and all it holds.
\<close>

definition download_and_trim_video ::
  "env \<Rightarrow> string \<Rightarrow> string \<Rightarrow> string \<Rightarrow> file_path \<Rightarrow> world \<Rightarrow> world \<times> (failure + unit)" where
  "download_and_trim_video ev u st et output_path w =
     (let temp_dir = mkdtemp ev;
          w0 = w\<lparr>fs := (fs w)(temp_dir \<mapsto> [])\<rparr>
      in case download_and_trim_body ev u st et output_path temp_dir w0 of
           (w1, r) \<Rightarrow>
             (w1\<lparr>fs := (fs w1)(temp_dir := None)\<rparr>,
              case r of
                Inl e \<Rightarrow> Inl (HTTPException 500 (TextExn ''Error processing video: '' e))
              | Inr _ \<Rightarrow> Inr ()))"

section \<open>Output retention\<close>

text \<open>
  \<^verbatim>\<open>
  files = sorted(os.listdir(output_dir), key=lambda x: os.path.getctime(os.path.join(output_dir, x)))
  if len(files) > 10:
      for old_file in files[:-10]:
          try:
              os.remove(os.path.join(output_dir, old_file))
          except:
              pass
  \<close>
  \<^verbatim>\<open>sorted\<close> is stable, as \<^const>\<open>sort_key\<close> is; the names are sorted together with their
  entries, by the time of the entry.
\<close>

definition sorted_files :: "listing \<Rightarrow> string list" where
  "sorted_files l = map fst (sort_key (\<lambda>x. ctime (snd x)) l)"

definition try_remove :: "string \<Rightarrow> filesystem \<Rightarrow> string \<Rightarrow> filesystem" where
  "try_remove d f old_file =
     (case os_remove (d, old_file) f of Inl _ \<Rightarrow> f | Inr f' \<Rightarrow> f')"

definition clean_up_old_files :: "string \<Rightarrow> filesystem \<Rightarrow> pyexn + filesystem" where
  "clean_up_old_files output_dir f =
     (case f output_dir of
        None \<Rightarrow> Inl FileNotFoundError
      | Some l \<Rightarrow>
          (let files = sorted_files l
           in if length files > 10
              then Inr (foldl (try_remove output_dir) f (take (length files - 10) files))
              else Inr f))"

section \<open>The trim endpoint\<close>

record file_response =
  path :: file_path
  media_type :: string
  filename :: string

text \<open>
  \<^verbatim>\<open>trim_video\<close>, lines 41 to 87 of the module, in its order: both times are parsed, the
  metadata is fetched, the end is compared with the duration, the start with the end,
  the output path is built, the orchestrator runs, old files are cleaned up, the
  response is returned.
\<close>

definition trim_video :: "env \<Rightarrow> video_request \<Rightarrow> world \<Rightarrow> world \<times> (failure + file_response)" where
  "trim_video ev request w =
     (case time_to_seconds (start_time request) of
        Inl _ \<Rightarrow> (w, Inl (HTTPException 400 (Text ''Invalid time format. Use HH:MM:SS'')))
      | Inr start_seconds \<Rightarrow>
     (case time_to_seconds (end_time request) of
        Inl _ \<Rightarrow> (w, Inl (HTTPException 400 (Text ''Invalid time format. Use HH:MM:SS'')))
      | Inr end_seconds \<Rightarrow>
     (case get_video_info ev (url request) w of
        (w1, Inl e) \<Rightarrow> (w1, Inl e)
      | (w1, Inr info) \<Rightarrow>
     (case py_gt end_seconds (duration info) of
        Inl e \<Rightarrow> (w1, Inl (Unhandled e))
      | Inr True \<Rightarrow>
          (w1, Inl (HTTPException 400
             (Text (''End time exceeds video duration ('' @ py_str (duration info) @ '' seconds)''))))
      | Inr False \<Rightarrow>
          if start_seconds \<ge> end_seconds
          then (w1, Inl (HTTPException 400 (Text ''Start time must be before end time'')))
          else
            (let output_dir = path_join (gettempdir ev) ''video-trimmer'';
                 w2 = w1\<lparr>fs := makedirs output_dir (fs w1)\<rparr>;
                 timestamp = now ev;
                 output_filename = ''trimmed_video_'' @ timestamp @ ''.mp4'';
                 output_path = (output_dir, output_filename)
             in case download_and_trim_video ev (url request) (start_time request)
                       (end_time request) output_path w2 of
                  (w3, Inl e) \<Rightarrow> (w3, Inl e)
                | (w3, Inr _) \<Rightarrow>
                    (case clean_up_old_files output_dir (fs w3) of
                       Inl e \<Rightarrow> (w3, Inl (Unhandled e))
                     | Inr f \<Rightarrow>
                         (w3\<lparr>fs := f\<rparr>,
                          Inr \<lparr>path = output_path, media_type = ''video/mp4'',
                               filename = output_filename\<rparr>)))))))"

section \<open>Notions used in the statements\<close>

text \<open>A field written with decimal digits only, as in \<^verbatim>\<open>HH:MM:SS\<close>.\<close>

definition decimal :: "string \<Rightarrow> bool" where
  "decimal ds \<longleftrightarrow> ds \<noteq> [] \<and> list_all is_digit ds"

text \<open>
  What the contract calls an integer field, written out as a grammar. The digits of a
  field come in groups: a digit, followed by more digits or by one underscore and more
  digits.
\<close>

inductive digit_groups :: "string \<Rightarrow> bool" where
  one: "is_digit d \<Longrightarrow> digit_groups [d]"
| more: "is_digit d \<Longrightarrow> digit_groups b \<Longrightarrow> digit_groups (d # b)"
| under: "is_digit d \<Longrightarrow> digit_groups b \<Longrightarrow> digit_groups (d # CHR ''_'' # b)"

text \<open>
  The field \<open>f\<close> denotes the integer \<open>v\<close>: white space, an optional sign, groups of at
  most 4300 digits in all, white space; the value is that of the digits, negated after a
  minus sign.
\<close>

definition int_literal :: "string \<Rightarrow> int \<Rightarrow> bool" where
  "int_literal f v \<longleftrightarrow>
     (\<exists>ws1 sg body ws2.
        f = ws1 @ sg @ body @ ws2
        \<and> list_all py_isspace ws1 \<and> list_all py_isspace ws2
        \<and> (sg = [] \<or> sg = ''+'' \<or> sg = ''-'')
        \<and> digit_groups body
        \<and> length (filter is_digit body) \<le> int_max_str_digits
        \<and> v = (if sg = ''-'' then - 1 else 1) * int (dec_val (filter is_digit body)))"

text \<open>The string is three integer fields separated by two colons.\<close>

definition three_integer_fields :: "string \<Rightarrow> bool" where
  "three_integer_fields t \<longleftrightarrow>
     (\<exists>a b c h m s. t = a @ '':'' @ b @ '':'' @ c
        \<and> int_literal a h \<and> int_literal b m \<and> int_literal c s)"

text \<open>
  The form \<^verbatim>\<open>HH:MM:SS\<close> of the specification: hours, minutes and seconds as
  non-negative integers in decimal digits, with no bound on their size.
\<close>

definition hms_form :: "string \<Rightarrow> bool" where
  "hms_form t \<longleftrightarrow>
     (\<exists>hh mm ss. t = hh @ '':'' @ mm @ '':'' @ ss \<and> decimal hh \<and> decimal mm \<and> decimal ss)"

text \<open>A 400-class answer.\<close>

definition client_error :: "failure + 'a \<Rightarrow> bool" where
  "client_error r \<longleftrightarrow>
     (case r of Inl (HTTPException code _) \<Rightarrow> 400 \<le> code \<and> code < 500 | _ \<Rightarrow> False)"

text \<open>
  The probe raises, or returns nothing, or reports a duration that an integer can be
  compared with (the fallback \<open>0\<close> included).
\<close>

definition comparable_duration :: "extraction \<Rightarrow> bool" where
  "comparable_duration x \<longleftrightarrow>
     (case x of
        Info info \<Rightarrow> (case dict_get info ''duration'' (PInt 0) of PInt _ \<Rightarrow> True | _ \<Rightarrow> False)
      | _ \<Rightarrow> True)"

text \<open>The output directory and output path that \<^const>\<open>trim_video\<close> builds.\<close>

definition output_dir :: "env \<Rightarrow> string" where
  "output_dir ev = path_join (gettempdir ev) ''video-trimmer''"

definition output_path :: "env \<Rightarrow> file_path" where
  "output_path ev = (output_dir ev, ''trimmed_video_'' @ now ev @ ''.mp4'')"

text \<open>The world in which the endpoint calls the orchestrator, and the one it leaves.\<close>

definition before_orchestration :: "env \<Rightarrow> video_request \<Rightarrow> world \<Rightarrow> world" where
  "before_orchestration ev r w =
     w\<lparr>fs := makedirs (output_dir ev) (fs w), trace := trace w @ [Probe (url r)]\<rparr>"

definition after_orchestration :: "env \<Rightarrow> video_request \<Rightarrow> world \<Rightarrow> world" where
  "after_orchestration ev r w =
     fst (download_and_trim_video ev (url r) (start_time r) (end_time r) (output_path ev)
            (before_orchestration ev r w))"

definition path_exists :: "file_path \<Rightarrow> filesystem \<Rightarrow> bool" where
  "path_exists p f \<longleftrightarrow> (case f (fst p) of None \<Rightarrow> False | Some l \<Rightarrow> snd p \<in> set (map fst l))"

text \<open>The regular files of a listing.\<close>

definition regular :: "string \<times> entry \<Rightarrow> bool" where
  "regular x \<longleftrightarrow> \<not> is_dir (snd x)"

text \<open>
  The names the retention pass keeps: the last ten of the listing sorted by time, oldest
  first.
\<close>

definition ten_latest :: "listing \<Rightarrow> string list" where
  "ten_latest l = drop (length l - 10) (sorted_files l)"

section \<open>Example environments\<close>

text \<open>Tools and worlds on which the statements below are run.\<close>

definition example_metadata :: "string \<Rightarrow> pyval option" where
  "example_metadata = [''title'' \<mapsto> PStr ''Clip'', ''duration'' \<mapsto> PInt 100]"

definition untitled_metadata :: "string \<Rightarrow> pyval option" where
  "untitled_metadata = [''id'' \<mapsto> PStr ''x1'']"

definition add_file :: "file_path \<Rightarrow> int \<Rightarrow> filesystem \<Rightarrow> filesystem" where
  "add_file p t f =
     f(fst p \<mapsto> filter (\<lambda>x. fst x \<noteq> snd p) (case f (fst p) of None \<Rightarrow> [] | Some l \<Rightarrow> l)
                @ [(snd p, \<lparr>ctime = t, is_dir = False\<rparr>)])"

definition writes_video :: "string \<Rightarrow> string \<Rightarrow> filesystem \<Rightarrow> filesystem \<times> string option" where
  "writes_video u d f = (add_file (d, ''video.mp4'') 900 f, None)"

definition writes_nothing :: "string \<Rightarrow> string \<Rightarrow> filesystem \<Rightarrow> filesystem \<times> string option" where
  "writes_nothing u d f = (f, None)"

definition download_breaks :: "string \<Rightarrow> string \<Rightarrow> filesystem \<Rightarrow> filesystem \<times> string option" where
  "download_breaks u d f = (add_file (d, ''video.mp4.part'') 900 f, Some ''Connection reset'')"

definition trims_ok ::
  "file_path \<Rightarrow> file_path \<Rightarrow> int \<Rightarrow> int \<Rightarrow> filesystem \<Rightarrow> filesystem \<times> string option" where
  "trims_ok i out ss t f = (add_file out 1000 f, None)"

definition trim_breaks ::
  "file_path \<Rightarrow> file_path \<Rightarrow> int \<Rightarrow> int \<Rightarrow> filesystem \<Rightarrow> filesystem \<times> string option" where
  "trim_breaks i out ss t f =
     (add_file out 1000 f, Some ''ffmpeg error (see stderr output for detail)'')"

definition example_env :: env where
  "example_env =
     \<lparr>gettempdir = ''/tmp'', now = ''20240101_120000'', mkdtemp = ''/tmp/tmpk3x9'',
      extract_info = (\<lambda>u. Info example_metadata),
      download = writes_video, ffmpeg_run = trims_ok\<rparr>"

definition example_request :: video_request where
  "example_request =
     \<lparr>url = ''https://example.com/v'', start_time = ''00:00:05'', end_time = ''00:00:10''\<rparr>"

definition backwards_request :: video_request where
  "backwards_request =
     \<lparr>url = ''https://example.com/v'', start_time = ''00:00:10'', end_time = ''00:00:05''\<rparr>"

definition empty_world :: world where
  "empty_world = \<lparr>fs = Map.empty, trace = []\<rparr>"

definition plain_file :: "string \<Rightarrow> int \<Rightarrow> string \<times> entry" where
  "plain_file n t = (n, \<lparr>ctime = t, is_dir = False\<rparr>)"

definition subdir :: "string \<Rightarrow> int \<Rightarrow> string \<times> entry" where
  "subdir n t = (n, \<lparr>ctime = t, is_dir = True\<rparr>)"

definition fifteen_files :: listing where
  "fifteen_files =
     [plain_file ''c.mp4'' 3, plain_file ''a.mp4'' 1, plain_file ''b.mp4'' 2, plain_file ''o.mp4'' 15, plain_file ''d.mp4'' 4,
      plain_file ''e.mp4'' 5, plain_file ''n.mp4'' 14, plain_file ''f.mp4'' 6, plain_file ''g.mp4'' 7, plain_file ''h.mp4'' 8,
      plain_file ''m.mp4'' 13, plain_file ''i.mp4'' 9, plain_file ''j.mp4'' 10, plain_file ''k.mp4'' 11, plain_file ''l.mp4'' 12]"

definition crowded_world :: world where
  "crowded_world = \<lparr>fs = [''/tmp/video-trimmer'' \<mapsto> fifteen_files], trace = []\<rparr>"

definition ten_entries :: listing where
  "ten_entries =
     [plain_file ''b.mp4'' 2, subdir ''cache'' 1, plain_file ''c.mp4'' 3, plain_file ''d.mp4'' 4, plain_file ''e.mp4'' 5,
      plain_file ''f.mp4'' 6, plain_file ''g.mp4'' 7, plain_file ''h.mp4'' 8, plain_file ''i.mp4'' 9, plain_file ''j.mp4'' 10]"

definition subdir_world :: world where
  "subdir_world = \<lparr>fs = [''/tmp/video-trimmer'' \<mapsto> ten_entries], trace = []\<rparr>"

definition writes_other :: "string \<Rightarrow> string \<Rightarrow> filesystem \<Rightarrow> filesystem \<times> string option" where
  "writes_other u d f = (add_file (d, ''clip.mp4'') 900 f, None)"

definition untitled_env :: env where
  "untitled_env = example_env\<lparr>extract_info := (\<lambda>u. Info untitled_metadata)\<rparr>"

definition unavailable_env :: env where
  "unavailable_env = example_env\<lparr>extract_info := (\<lambda>u. Raises ''Video unavailable'')\<rparr>"

definition partial_env :: env where
  "partial_env = example_env\<lparr>ffmpeg_run := trim_breaks\<rparr>"

definition offline_env :: env where
  "offline_env = example_env\<lparr>download := download_breaks\<rparr>"

definition misnaming_env :: env where
  "misnaming_env = example_env\<lparr>download := writes_other\<rparr>"

definition silent_env :: env where
  "silent_env = example_env\<lparr>extract_info := (\<lambda>u. NoInfo)\<rparr>"

definition long_field :: string where
  "long_field = replicate 4301 (CHR ''9'')"

definition long_request :: video_request where
  "long_request =
     \<lparr>url = ''https://example.com/v'', start_time = ''00:00:05'', end_time = ''00:02:00''\<rparr>"

definition negative_request :: video_request where
  "negative_request =
     \<lparr>url = ''https://example.com/v'', start_time = ''00:00:-5'', end_time = ''00:00:10''\<rparr>"

definition malformed_request :: video_request where
  "malformed_request =
     \<lparr>url = ''https://example.com/v'', start_time = ''ab:cd:ef'', end_time = ''00:00:10''\<rparr>"

section \<open>Unfolding rules for running the model\<close>

lemmas env_defs = example_env_def untitled_env_def unavailable_env_def partial_env_def
  offline_env_def misnaming_env_def silent_env_def example_metadata_def untitled_metadata_def
  writes_video_def writes_other_def writes_nothing_def download_breaks_def trims_ok_def
  trim_breaks_def add_file_def example_request_def backwards_request_def long_request_def
  negative_request_def malformed_request_def
  empty_world_def crowded_world_def subdir_world_def fifteen_files_def ten_entries_def
  plain_file_def subdir_def

lemmas run_defs = trim_video_def get_video_info_def dict_get_def py_gt_def py_str_def
  path_join_def makedirs_def listdir_def os_remove_def startswith_def
  download_and_trim_video_def download_and_trim_body_def clean_up_old_files_def
  sorted_files_def try_remove_def output_dir_def output_path_def before_orchestration_def
  after_orchestration_def path_exists_def client_error_def comparable_duration_def Let_def

section \<open>Lemmas: the time parser\<close>

lemma split_not_Nil: "split sep cs \<noteq> []"
  by (induction cs) (auto split: list.splits)

lemma split_no_sep: "sep \<notin> set a \<Longrightarrow> split sep a = [a]"
  by (induction a) auto

lemma split_append_sep: "sep \<notin> set a \<Longrightarrow> split sep (a @ sep # r) = a # split sep r"
  by (induction a) auto

lemma split_one: "split sep t = [a] \<Longrightarrow> t = a \<and> sep \<notin> set a"
proof (induction t arbitrary: a)
  case Nil
  then show ?case by simp
next
  case (Cons c cs)
  show ?case
  proof (cases "c = sep")
    case True
    with Cons.prems show ?thesis by (simp add: split_not_Nil)
  next
    case False
    with Cons.prems obtain f where f: "split sep cs = [f]" "a = c # f"
      by (auto split: list.splits simp: split_not_Nil)
    from Cons.IH[OF f(1)] f(2) False show ?thesis by auto
  qed
qed

lemma split_cons:
  "split sep t = a # f # rs \<Longrightarrow> \<exists>r. t = a @ sep # r \<and> sep \<notin> set a \<and> split sep r = f # rs"
proof (induction t arbitrary: a)
  case Nil
  then show ?case by simp
next
  case (Cons c cs)
  show ?case
  proof (cases "c = sep")
    case True
    with Cons.prems show ?thesis by auto
  next
    case False
    with Cons.prems obtain g where g: "split sep cs = g # f # rs" "a = c # g"
      by (auto split: list.splits)
    from Cons.IH[OF g(1)] obtain r where "cs = g @ sep # r" "sep \<notin> set g" "split sep r = f # rs"
      by blast
    with g(2) False show ?thesis by auto
  qed
qed

lemma split_three:
  assumes "split sep t = [a, b, c]"
  shows "t = a @ sep # b @ sep # c \<and> sep \<notin> set a \<and> sep \<notin> set b \<and> sep \<notin> set c"
proof -
  from split_cons[OF assms] obtain r where r: "t = a @ sep # r" "sep \<notin> set a" "split sep r = [b, c]"
    by blast
  from split_cons[OF r(3)] obtain r' where r': "r = b @ sep # r'" "sep \<notin> set b" "split sep r' = [c]"
    by blast
  from split_one[OF r'(3)] r r' show ?thesis by simp
qed

lemma is_digit_not_space: "is_digit c \<Longrightarrow> \<not> py_isspace c"
  by (auto simp: is_digit_def py_isspace_def)

lemma is_digit_not_sign: "is_digit c \<Longrightarrow> c \<noteq> CHR ''+'' \<and> c \<noteq> CHR ''-'' \<and> c \<noteq> CHR ''_'' \<and> c \<noteq> CHR '':''"
  by (auto simp: is_digit_def)

lemma space_not_literal: "py_isspace c \<Longrightarrow> \<not> in_literal c \<and> c \<noteq> CHR ''+'' \<and> c \<noteq> CHR ''-'' \<and> c \<noteq> CHR '':''"
  by (auto simp: py_isspace_def in_literal_def is_digit_def)

lemma digit_groups_props:
  "digit_groups b \<Longrightarrow>
     b \<noteq> [] \<and> list_all in_literal b \<and> is_digit (hd b) \<and> is_digit (last b) \<and> \<not> double_underscore b"
proof (induction rule: digit_groups.induct)
  case (one d)
  then show ?case by (simp add: in_literal_def)
next
  case (more d b)
  then obtain x xs where b: "b = x # xs" by (cases b) auto
  with more show ?case using is_digit_not_sign[of d] by (simp add: in_literal_def)
next
  case (under d b)
  then obtain x xs where b: "b = x # xs" by (cases b) auto
  with under show ?case using is_digit_not_sign[of d] is_digit_not_sign[of x]
    by (simp add: in_literal_def)
qed

lemma digit_groups_intro:
  "b \<noteq> [] \<Longrightarrow> list_all in_literal b \<Longrightarrow> hd b \<noteq> CHR ''_'' \<Longrightarrow> last b \<noteq> CHR ''_''
     \<Longrightarrow> \<not> double_underscore b \<Longrightarrow> digit_groups b"
proof (induction b rule: length_induct)
  case (1 b)
  from "1.prems"(1) obtain d r where b: "b = d # r" by (cases b) auto
  have d: "is_digit d" using "1.prems"(2,3) b by (simp add: in_literal_def)
  show ?case
  proof (cases r)
    case Nil
    with b d show ?thesis by (simp add: digit_groups.one)
  next
    case (Cons x r')
    show ?thesis
    proof (cases "x = CHR ''_''")
      case False
      have "digit_groups r"
      proof -
        have "length r < length b" using b by simp
        moreover have "r \<noteq> []" using Cons by simp
        moreover have "list_all in_literal r" using "1.prems"(2) b by simp
        moreover have "hd r \<noteq> CHR ''_''" using False Cons by simp
        moreover have "last r \<noteq> CHR ''_''" using "1.prems"(4) b Cons by simp
        moreover have "\<not> double_underscore r" using "1.prems"(5) b Cons by simp
        ultimately show ?thesis using "1.IH" by blast
      qed
      with d b show ?thesis by (simp add: digit_groups.more)
    next
      case True
      have ne: "r' \<noteq> []" using "1.prems"(4) b Cons True by auto
      then obtain y r'' where r': "r' = y # r''" by (cases r') auto
      have y: "y \<noteq> CHR ''_''" using "1.prems"(5) b Cons True r' by simp
      have "digit_groups r'"
      proof -
        have "length r' < length b" using b Cons by simp
        moreover have "list_all in_literal r'" using "1.prems"(2) b Cons by simp
        moreover have "hd r' \<noteq> CHR ''_''" using y r' by simp
        moreover have "last r' \<noteq> CHR ''_''" using "1.prems"(4) b Cons ne by simp
        moreover have "\<not> double_underscore r'" using "1.prems"(5) b Cons r' by simp
        ultimately show ?thesis using "1.IH" ne by blast
      qed
      with d b Cons True show ?thesis by (simp add: digit_groups.under)
    qed
  qed
qed

lemma spaces_scan:
  assumes "list_all py_isspace ws"
  shows "takeWhile in_literal ws = []" "dropWhile in_literal ws = ws" "dropWhile py_isspace ws = []"
  using assms space_not_literal by (cases ws; simp add: list_all_iff)+

lemma if_None_Some: "((if c then None else Some x) = Some v) \<longleftrightarrow> (\<not> c \<and> x = v)"
  by simp

lemma py_int_of_literal:
  assumes "int_literal f v"
  shows "py_int f = Some v"
proof -
  from assms obtain ws1 sg body ws2 where
    f: "f = ws1 @ sg @ body @ ws2"
    and w1: "list_all py_isspace ws1" and w2: "list_all py_isspace ws2"
    and sg: "sg = [] \<or> sg = ''+'' \<or> sg = ''-''"
    and dg: "digit_groups body"
    and len: "length (filter is_digit body) \<le> int_max_str_digits"
    and v: "v = (if sg = ''-'' then - 1 else 1) * int (dec_val (filter is_digit body))"
    unfolding int_literal_def by blast
  from digit_groups_props[OF dg] obtain d r where body: "body = d # r" and d: "is_digit d"
    and lit: "list_all in_literal body" and lst: "is_digit (last body)"
    and dbl: "\<not> double_underscore body"
    by (cases body) auto
  have nsp: "\<not> py_isspace d" "d \<noteq> CHR ''+''" "d \<noteq> CHR ''-''" "d \<noteq> CHR ''_''"
    using d is_digit_not_space is_digit_not_sign by auto
  have bne: "body \<noteq> []" and hdb: "hd body \<noteq> CHR ''_''"
    using body nsp by simp_all
  have lst': "last body \<noteq> CHR ''_''" using lst is_digit_not_sign by auto
  have plus: "\<not> py_isspace (CHR ''+'')" "\<not> py_isspace (CHR ''-'')"
    by (simp_all add: py_isspace_def)
  have "dropWhile py_isspace f = dropWhile py_isspace (sg @ body @ ws2)"
    unfolding f using w1 by (simp add: dropWhile_append2 list_all_iff)
  also have "\<dots> = sg @ body @ ws2"
    using sg body nsp(1) plus by auto
  finally have s1: "dropWhile py_isspace f = sg @ body @ ws2" .
  have c1: "(case sg @ body @ ws2 of [] \<Rightarrow> False | c # x \<Rightarrow> c = CHR ''-'') = (sg = ''-'')"
    using sg body nsp(3) by auto
  have c2: "(case sg @ body @ ws2 of [] \<Rightarrow> []
             | c # r \<Rightarrow> if c = CHR ''+'' \<or> c = CHR ''-'' then r else sg @ body @ ws2)
            = body @ ws2"
    using sg body nsp(2,3) by auto
  have tw: "takeWhile in_literal (body @ ws2) = body"
    using lit spaces_scan(1)[OF w2] by (simp add: takeWhile_append2 list_all_iff)
  have dw: "dropWhile in_literal (body @ ws2) = ws2"
    using lit spaces_scan(2)[OF w2] by (simp add: dropWhile_append2 list_all_iff)
  have rest: "dropWhile py_isspace ws2 = []" by (rule spaces_scan(3)[OF w2])
  have nlen: "\<not> int_max_str_digits < length (filter is_digit body)"
    using len by simp
  show ?thesis
    unfolding py_int_def Let_def s1 c1 c2 tw dw rest if_None_Some
    using bne hdb lst' dbl nlen v by blast
qed

lemma sign_split:
  "s = (case s of [] \<Rightarrow> [] | c # r \<Rightarrow> if c = CHR ''+'' \<or> c = CHR ''-'' then [c] else [])
       @ (case s of [] \<Rightarrow> [] | c # r \<Rightarrow> if c = CHR ''+'' \<or> c = CHR ''-'' then r else s)"
  by (cases s) auto

lemma sign_neg:
  "(case s of [] \<Rightarrow> False | c # x \<Rightarrow> c = CHR ''-'')
     = ((case s of [] \<Rightarrow> [] | c # r \<Rightarrow> if c = CHR ''+'' \<or> c = CHR ''-'' then [c] else []) = ''-'')"
  by (cases s) auto

lemma sign_cases:
  "(case s of [] \<Rightarrow> [] | c # r \<Rightarrow> if c = CHR ''+'' \<or> c = CHR ''-'' then [c] else []) = []
   \<or> (case s of [] \<Rightarrow> [] | c # r \<Rightarrow> if c = CHR ''+'' \<or> c = CHR ''-'' then [c] else []) = ''+''
   \<or> (case s of [] \<Rightarrow> [] | c # r \<Rightarrow> if c = CHR ''+'' \<or> c = CHR ''-'' then [c] else []) = ''-''"
  by (cases s) auto

lemma literal_of_py_int:
  assumes "py_int f = Some v"
  shows "int_literal f v"
proof -
  let ?ws1 = "takeWhile py_isspace f"
  let ?s1 = "dropWhile py_isspace f"
  let ?s2 = "case ?s1 of [] \<Rightarrow> [] | c # r \<Rightarrow> if c = CHR ''+'' \<or> c = CHR ''-'' then r else ?s1"
  let ?body = "takeWhile in_literal ?s2"
  let ?ws2 = "dropWhile in_literal ?s2"
  define sg where "sg = (case ?s1 of [] \<Rightarrow> [] | c # r \<Rightarrow> if c = CHR ''+'' \<or> c = CHR ''-'' then [c] else [])"
  have f: "f = ?ws1 @ ?s1" by simp
  have s1: "?s1 = sg @ ?s2" unfolding sg_def by (rule sign_split)
  have s2: "?s2 = ?body @ ?ws2" by simp
  have neg: "(case ?s1 of [] \<Rightarrow> False | c # x \<Rightarrow> c = CHR ''-'') = (sg = ''-'')"
    unfolding sg_def by (rule sign_neg)
  have sgs: "sg = [] \<or> sg = ''+'' \<or> sg = ''-''"
    unfolding sg_def by (rule sign_cases)
  note a = assms[unfolded py_int_def Let_def if_None_Some neg]
  from a have ok1: "?body \<noteq> []" and ok2: "hd ?body \<noteq> CHR ''_''"
    and ok3: "last ?body \<noteq> CHR ''_''" and ok4: "\<not> double_underscore ?body"
    and ok5: "dropWhile py_isspace ?ws2 = []"
    and ok6: "\<not> int_max_str_digits < length (filter is_digit ?body)"
    and v: "v = (if sg = ''-'' then - 1 else 1) * int (dec_val (filter is_digit ?body))"
    by blast+
  have w1: "list_all py_isspace ?ws1"
    unfolding list_all_iff using set_takeWhileD by fastforce
  have w2: "list_all py_isspace ?ws2"
    using ok5 by (simp only: list_all_iff dropWhile_eq_Nil_conv)
  have lit: "list_all in_literal ?body"
    unfolding list_all_iff using set_takeWhileD by fastforce
  have dg: "digit_groups ?body"
    using ok1 lit ok2 ok3 ok4 by (rule digit_groups_intro)
  have len: "length (filter is_digit ?body) \<le> int_max_str_digits"
    using ok6 by simp
  have "f = ?ws1 @ sg @ ?body @ ?ws2"
    using f s1 s2 by (metis)
  with w1 w2 sgs dg len v show ?thesis
    unfolding int_literal_def by blast
qed

lemma py_int_iff: "py_int f = Some v \<longleftrightarrow> int_literal f v"
  using py_int_of_literal literal_of_py_int by blast

lemma int_literal_no_colon:
  assumes "int_literal f v"
  shows "CHR '':'' \<notin> set f"
proof -
  from assms obtain ws1 sg body ws2 where
    f: "f = ws1 @ sg @ body @ ws2"
    and w1: "list_all py_isspace ws1" and w2: "list_all py_isspace ws2"
    and sg: "sg = [] \<or> sg = ''+'' \<or> sg = ''-''"
    and dg: "digit_groups body"
    unfolding int_literal_def by blast
  have "CHR '':'' \<notin> set ws1" "CHR '':'' \<notin> set ws2"
    using w1 w2 space_not_literal by (auto simp: list_all_iff)
  moreover have "CHR '':'' \<notin> set sg" using sg by auto
  moreover have "CHR '':'' \<notin> set body"
    using digit_groups_props[OF dg] by (auto simp: list_all_iff in_literal_def is_digit_def)
  ultimately show ?thesis using f by simp
qed

lemma time_to_seconds_iff:
  "time_to_seconds t = Inr v \<longleftrightarrow>
     (\<exists>a b c h m s. t = a @ '':'' @ b @ '':'' @ c
        \<and> int_literal a h \<and> int_literal b m \<and> int_literal c s \<and> v = h * 3600 + m * 60 + s)"
proof
  assume "time_to_seconds t = Inr v"
  then obtain a b c h m s where sp: "split (CHR '':'') t = [a, b, c]"
    and p: "py_int a = Some h" "py_int b = Some m" "py_int c = Some s"
    and v: "v = h * 3600 + m * 60 + s"
    unfolding time_to_seconds_def
    by (auto split: list.splits option.splits)
  from split_three[OF sp] have "t = a @ '':'' @ b @ '':'' @ c" by simp
  with p v show "\<exists>a b c h m s. t = a @ '':'' @ b @ '':'' @ c
        \<and> int_literal a h \<and> int_literal b m \<and> int_literal c s \<and> v = h * 3600 + m * 60 + s"
    unfolding py_int_iff by blast
next
  assume "\<exists>a b c h m s. t = a @ '':'' @ b @ '':'' @ c
        \<and> int_literal a h \<and> int_literal b m \<and> int_literal c s \<and> v = h * 3600 + m * 60 + s"
  then obtain a b c h m s where t: "t = a @ '':'' @ b @ '':'' @ c"
    and l: "int_literal a h" "int_literal b m" "int_literal c s"
    and v: "v = h * 3600 + m * 60 + s"
    by blast
  have "split (CHR '':'') t = [a, b, c]"
    unfolding t using l by (simp add: split_append_sep split_no_sep int_literal_no_colon)
  with l v show "time_to_seconds t = Inr v"
    by (simp add: time_to_seconds_def py_int_of_literal)
qed

lemma time_to_seconds_total:
  "time_to_seconds t = Inl ValueError \<or> (\<exists>v. time_to_seconds t = Inr v)"
  unfolding time_to_seconds_def by (auto split: list.splits option.splits)

lemma three_integer_fields_iff:
  "three_integer_fields t \<longleftrightarrow> (\<exists>v. time_to_seconds t = Inr v)"
  unfolding three_integer_fields_def time_to_seconds_iff by blast

lemma time_to_seconds_not_three:
  assumes "\<not> three_integer_fields t"
  shows "time_to_seconds t = Inl ValueError"
  using assms time_to_seconds_total[of t] three_integer_fields_iff[of t] by blast

lemma decimal_digit_groups: "decimal ds \<Longrightarrow> digit_groups ds"
proof (induction ds)
  case Nil
  then show ?case by (simp add: decimal_def)
next
  case (Cons d ds)
  show ?case
  proof (cases ds)
    case Nil
    with Cons.prems show ?thesis by (simp add: decimal_def digit_groups.one)
  next
    case (Cons x xs)
    with Cons.prems Cons.IH show ?thesis by (simp add: decimal_def digit_groups.more)
  qed
qed

lemma decimal_int_literal:
  assumes "decimal ds" "length ds \<le> int_max_str_digits"
  shows "int_literal ds (int (dec_val ds))"
proof -
  have filt: "filter is_digit ds = ds" using assms(1) by (simp add: decimal_def list_all_iff)
  have "ds = [] @ [] @ ds @ []" by simp
  moreover have "list_all py_isspace []" by simp
  ultimately show ?thesis
    unfolding int_literal_def
    using decimal_digit_groups[OF assms(1)] assms(2) filt
    by (intro exI[of _ "[]"] exI[of _ ds]) simp
qed

lemma py_int_decimal:
  assumes "decimal ds" "length ds \<le> int_max_str_digits"
  shows "py_int ds = Some (int (dec_val ds))"
  using decimal_int_literal[OF assms] by (rule py_int_of_literal)

lemma py_int_too_long:
  assumes "decimal ds" "length ds > int_max_str_digits"
  shows "py_int ds = None"
proof (rule ccontr)
  assume "py_int ds \<noteq> None"
  then obtain v where "py_int ds = Some v" by auto
  then have "int_literal ds v" by (rule literal_of_py_int)
  then obtain ws1 sg body ws2 where
    f: "ds = ws1 @ sg @ body @ ws2"
    and w1: "list_all py_isspace ws1" and w2: "list_all py_isspace ws2"
    and sg: "sg = [] \<or> sg = ''+'' \<or> sg = ''-''"
    and len: "length (filter is_digit body) \<le> int_max_str_digits"
    unfolding int_literal_def by blast
  have all: "\<forall>x\<in>set ds. is_digit x" using assms(1) by (simp add: decimal_def list_all_iff)
  have sub: "set ws1 \<subseteq> set ds" "set sg \<subseteq> set ds" "set ws2 \<subseteq> set ds"
    unfolding f by auto
  have e1: "ws1 = []"
  proof (cases ws1)
    case (Cons x xs)
    then have "x \<in> set ws1" by simp
    then have "py_isspace x" "is_digit x" using w1 sub(1) all by (auto simp: list_all_iff)
    then show ?thesis using is_digit_not_space by blast
  qed simp
  have e2: "ws2 = []"
  proof (cases ws2)
    case (Cons x xs)
    then have "x \<in> set ws2" by simp
    then have "py_isspace x" "is_digit x" using w2 sub(3) all by (auto simp: list_all_iff)
    then show ?thesis using is_digit_not_space by blast
  qed simp
  have e3: "sg = []"
  proof (rule ccontr)
    assume "sg \<noteq> []"
    with sg have "CHR ''+'' \<in> set sg \<or> CHR ''-'' \<in> set sg" by auto
    then have "is_digit (CHR ''+'') \<or> is_digit (CHR ''-'')" using sub(2) all by blast
    then show False by (simp add: is_digit_def)
  qed
  have "body = ds" unfolding f e1 e2 e3 by simp
  with all have "filter is_digit body = ds" by simp
  with len assms(2) show False by simp
qed

lemma decimal_no_colon: "decimal ds \<Longrightarrow> CHR '':'' \<notin> set ds"
  using is_digit_not_sign by (auto simp: decimal_def list_all_iff)

lemma time_to_seconds_decimal:
  assumes "decimal hh" "decimal mm" "decimal ss"
    and "length hh \<le> int_max_str_digits" "length mm \<le> int_max_str_digits"
        "length ss \<le> int_max_str_digits"
  shows "time_to_seconds (hh @ '':'' @ mm @ '':'' @ ss) =
           Inr (int (dec_val hh) * 3600 + int (dec_val mm) * 60 + int (dec_val ss))"
proof -
  have "split (CHR '':'') (hh @ '':'' @ mm @ '':'' @ ss) = [hh, mm, ss]"
    using assms by (simp add: split_append_sep split_no_sep decimal_no_colon)
  then show ?thesis
    using assms by (simp add: time_to_seconds_def py_int_decimal)
qed

lemma time_to_seconds_too_long:
  assumes "decimal hh" "decimal mm" "decimal ss"
    and "length hh > int_max_str_digits \<or> length mm > int_max_str_digits
         \<or> length ss > int_max_str_digits"
  shows "time_to_seconds (hh @ '':'' @ mm @ '':'' @ ss) = Inl ValueError"
proof -
  have "split (CHR '':'') (hh @ '':'' @ mm @ '':'' @ ss) = [hh, mm, ss]"
    using assms(1-3) by (simp add: split_append_sep split_no_sep decimal_no_colon)
  then have sp: "map py_int (split (CHR '':'') (hh @ '':'' @ mm @ '':'' @ ss))
                   = [py_int hh, py_int mm, py_int ss]"
    by simp
  from assms(4) show ?thesis
  proof (elim disjE)
    assume "length hh > int_max_str_digits"
    then have "py_int hh = None" using py_int_too_long[OF assms(1)] by simp
    then show ?thesis unfolding time_to_seconds_def sp by simp
  next
    assume "length mm > int_max_str_digits"
    then have "py_int mm = None" using py_int_too_long[OF assms(2)] by simp
    then show ?thesis unfolding time_to_seconds_def sp by (simp split: option.splits)
  next
    assume "length ss > int_max_str_digits"
    then have "py_int ss = None" using py_int_too_long[OF assms(3)] by simp
    then show ?thesis unfolding time_to_seconds_def sp by (simp split: option.splits)
  qed
qed

lemma hms_form_split:
  assumes "hms_form t"
  shows "\<exists>a b c. split (CHR '':'') t = [a, b, c] \<and> decimal a \<and> decimal b \<and> decimal c"
proof -
  from assms obtain hh mm ss where t: "t = hh @ '':'' @ mm @ '':'' @ ss"
    and d: "decimal hh" "decimal mm" "decimal ss"
    unfolding hms_form_def by blast
  have "split (CHR '':'') t = [hh, mm, ss]"
    unfolding t using d by (simp add: split_append_sep split_no_sep decimal_no_colon)
  with d show ?thesis by blast
qed

lemma parse_examples:
  "time_to_seconds ''00:00:05'' = Inr 5" "time_to_seconds ''00:00:10'' = Inr 10"
  "time_to_seconds ''00:02:00'' = Inr 120"
  by code_simp+

lemma parse_more:
  "time_to_seconds ''01:02:03'' = Inr 3723" "time_to_seconds ''00:00:00'' = Inr 0"
  "time_to_seconds ''1:2'' = Inl ValueError" "time_to_seconds ''ab:cd:ef'' = Inl ValueError"
  "time_to_seconds ''00:00:-5'' = Inr (- 5)" "time_to_seconds ''1_0:0:0'' = Inr 36000"
  by code_simp+

lemma str_int_examples: "str_int 100 = ''100''" "str_int 0 = ''0''"
  by code_simp+

lemma long_field_decimal: "decimal long_field" "length long_field > int_max_str_digits"
  by (simp_all add: long_field_def decimal_def list_all_iff is_digit_def int_max_str_digits_def)

lemma zero_decimal: "decimal ''0''"
  by (simp add: decimal_def is_digit_def)

lemma trim_video_bad_format:
  assumes "time_to_seconds (start_time request) = Inl e \<or> time_to_seconds (end_time request) = Inl e"
  shows "trim_video ev request w = (w, Inl (HTTPException 400 (Text ''Invalid time format. Use HH:MM:SS'')))"
  using assms unfolding trim_video_def
  by (auto split: sum.splits)

section \<open>Lemmas: the endpoint's checks\<close>

lemma get_video_info_world:
  "fst (get_video_info ev u w) = w\<lparr>trace := trace w @ [Probe u]\<rparr>"
  by (simp add: get_video_info_def Let_def split: extraction.splits)

lemma get_video_info_Info:
  "extract_info ev u = Info info \<Longrightarrow>
   snd (get_video_info ev u w) =
     Inr \<lparr>title = dict_get info ''title'' (PStr ''Unknown Title''),
          duration = dict_get info ''duration'' (PInt 0),
          thumbnail = dict_get info ''thumbnail'' (PStr [])\<rparr>"
  by (simp add: get_video_info_def Let_def)

lemma get_video_info_Raises:
  "extract_info ev u = Raises msg \<Longrightarrow>
   snd (get_video_info ev u w) =
     Inl (HTTPException 400 (TextExn ''Error fetching video info: '' (ToolError msg)))"
  by (simp add: get_video_info_def Let_def)

lemma get_video_info_NoInfo:
  "extract_info ev u = NoInfo \<Longrightarrow>
   snd (get_video_info ev u w) =
     Inl (HTTPException 400 (TextExn ''Error fetching video info: '' AttributeError))"
  by (simp add: get_video_info_def Let_def)

lemma trim_video_probe_fails:
  assumes "time_to_seconds (start_time r) = Inr s" "time_to_seconds (end_time r) = Inr e"
    and "snd (get_video_info ev (url r) w) = Inl x"
  shows "trim_video ev r w = (w\<lparr>trace := trace w @ [Probe (url r)]\<rparr>, Inl x)"
  using assms get_video_info_world[of ev "url r" w]
  by (cases "get_video_info ev (url r) w") (simp add: trim_video_def)

lemma trim_video_exceeds:
  assumes "time_to_seconds (start_time r) = Inr s" "time_to_seconds (end_time r) = Inr e"
    and "extract_info ev (url r) = Info info" "dict_get info ''duration'' (PInt 0) = PInt d"
    and "e > d"
  shows "trim_video ev r w =
           (w\<lparr>trace := trace w @ [Probe (url r)]\<rparr>,
            Inl (HTTPException 400
              (Text (''End time exceeds video duration ('' @ str_int d @ '' seconds)''))))"
  using assms get_video_info_world[of ev "url r" w] get_video_info_Info[of ev "url r" info w]
  by (cases "get_video_info ev (url r) w") (simp add: trim_video_def py_gt_def py_str_def)

lemma trim_video_not_before:
  assumes "time_to_seconds (start_time r) = Inr s" "time_to_seconds (end_time r) = Inr e"
    and "extract_info ev (url r) = Info info" "dict_get info ''duration'' (PInt 0) = PInt d"
    and "\<not> e > d" "s \<ge> e"
  shows "trim_video ev r w =
           (w\<lparr>trace := trace w @ [Probe (url r)]\<rparr>,
            Inl (HTTPException 400 (Text ''Start time must be before end time'')))"
  using assms get_video_info_world[of ev "url r" w] get_video_info_Info[of ev "url r" info w]
  by (cases "get_video_info ev (url r) w") (simp add: trim_video_def py_gt_def py_str_def)

lemma trim_video_type_error:
  assumes "time_to_seconds (start_time r) = Inr s" "time_to_seconds (end_time r) = Inr e"
    and "extract_info ev (url r) = Info info" "\<forall>d. dict_get info ''duration'' (PInt 0) \<noteq> PInt d"
  shows "trim_video ev r w =
           (w\<lparr>trace := trace w @ [Probe (url r)]\<rparr>, Inl (Unhandled TypeError))"
  using assms get_video_info_world[of ev "url r" w] get_video_info_Info[of ev "url r" info w]
  by (cases "get_video_info ev (url r) w"; cases "dict_get info ''duration'' (PInt 0)")
     (simp_all add: trim_video_def py_gt_def)

lemma trim_video_rejects_unordered:
  assumes st: "time_to_seconds (start_time r) = Inr s" and et: "time_to_seconds (end_time r) = Inr e"
    and ge: "s \<ge> e"
  shows "fst (trim_video ev r w) = w\<lparr>trace := trace w @ [Probe (url r)]\<rparr>"
    and "\<exists>x. snd (trim_video ev r w) = Inl x"
    and "comparable_duration (extract_info ev (url r)) \<Longrightarrow> client_error (snd (trim_video ev r w))"
proof -
  let ?x = "extract_info ev (url r)"
  have "fst (trim_video ev r w) = w\<lparr>trace := trace w @ [Probe (url r)]\<rparr>
        \<and> (\<exists>x. snd (trim_video ev r w) = Inl x)
        \<and> (comparable_duration ?x \<longrightarrow> client_error (snd (trim_video ev r w)))"
  proof (cases ?x)
    case (Raises msg)
    then show ?thesis
      using trim_video_probe_fails[OF st et get_video_info_Raises[OF Raises]]
      by (simp add: client_error_def)
  next
    case NoInfo
    then show ?thesis
      using trim_video_probe_fails[OF st et get_video_info_NoInfo[OF NoInfo]]
      by (simp add: client_error_def)
  next
    case (Info info)
    show ?thesis
    proof (cases "\<exists>d. dict_get info ''duration'' (PInt 0) = PInt d")
      case True
      then obtain d where d: "dict_get info ''duration'' (PInt 0) = PInt d" by blast
      show ?thesis
      proof (cases "e > d")
        case True
        then show ?thesis using trim_video_exceeds[OF st et Info d] by (simp add: client_error_def)
      next
        case False
        then show ?thesis using trim_video_not_before[OF st et Info d False ge]
          by (simp add: client_error_def)
      qed
    next
      case False
      then have "\<forall>d. dict_get info ''duration'' (PInt 0) \<noteq> PInt d" by blast
      from trim_video_type_error[OF st et Info this] False Info show ?thesis
        by (auto simp add: comparable_duration_def split: pyval.splits)
    qed
  qed
  then show "fst (trim_video ev r w) = w\<lparr>trace := trace w @ [Probe (url r)]\<rparr>"
    and "\<exists>x. snd (trim_video ev r w) = Inl x"
    and "comparable_duration (extract_info ev (url r)) \<Longrightarrow> client_error (snd (trim_video ev r w))"
    by blast+
qed

section \<open>Lemmas: retention\<close>

lemma map_of_distinct_names:
  "distinct (map fst l) \<Longrightarrow> x \<in> set l \<Longrightarrow> map_of l (fst x) = Some (snd x)"
  by (cases x) simp

lemma try_remove_listing:
  assumes "f d = Some l" "distinct (map fst l)"
  shows "try_remove d f n = f(d \<mapsto> filter (\<lambda>x. fst x \<noteq> n \<or> is_dir (snd x)) l)"
proof (cases "map_of l n")
  case None
  then have "\<forall>x\<in>set l. fst x \<noteq> n"
    by (metis map_of_eq_None_iff image_eqI)
  then have "filter (\<lambda>x. fst x \<noteq> n \<or> is_dir (snd x)) l = l"
    by simp
  with None assms(1) show ?thesis
    by (simp add: try_remove_def os_remove_def map_upd_triv)
next
  case (Some e)
  then have mem: "(n, e) \<in> set l" by (rule map_of_SomeD)
  have only: "\<forall>x\<in>set l. fst x = n \<longrightarrow> snd x = e"
    using map_of_distinct_names[OF assms(2)] Some by fastforce
  show ?thesis
  proof (cases "is_dir e")
    case True
    then have "\<forall>x\<in>set l. fst x \<noteq> n \<or> is_dir (snd x)" using only by auto
    then have "filter (\<lambda>x. fst x \<noteq> n \<or> is_dir (snd x)) l = l" by simp
    with True Some assms(1) show ?thesis
      by (simp add: try_remove_def os_remove_def map_upd_triv)
  next
    case False
    then have "\<forall>x\<in>set l. (fst x \<noteq> n \<or> is_dir (snd x)) = (fst x \<noteq> n)" using only by auto
    then have "filter (\<lambda>x. fst x \<noteq> n \<or> is_dir (snd x)) l = filter (\<lambda>x. fst x \<noteq> n) l"
      by (simp cong: filter_cong)
    with False Some assms(1) show ?thesis
      by (simp add: try_remove_def os_remove_def)
  qed
qed

lemma distinct_names_filter: "distinct (map fst l) \<Longrightarrow> distinct (map fst (filter P l))"
  by (simp add: distinct_map_filter)

lemma foldl_try_remove:
  assumes "f d = Some l" "distinct (map fst l)"
  shows "foldl (try_remove d) f ns = f(d \<mapsto> filter (\<lambda>x. fst x \<notin> set ns \<or> is_dir (snd x)) l)"
  using assms
proof (induction ns arbitrary: f l)
  case Nil
  then show ?case by (simp add: map_upd_triv)
next
  case (Cons n ns)
  let ?l1 = "filter (\<lambda>x. fst x \<noteq> n \<or> is_dir (snd x)) l"
  have step: "try_remove d f n = f(d \<mapsto> ?l1)"
    using Cons.prems by (rule try_remove_listing)
  have "foldl (try_remove d) (f(d \<mapsto> ?l1)) ns =
          (f(d \<mapsto> ?l1))(d \<mapsto> filter (\<lambda>x. fst x \<notin> set ns \<or> is_dir (snd x)) ?l1)"
    using Cons.prems(2) by (intro Cons.IH) (simp_all add: distinct_names_filter)
  moreover have "filter (\<lambda>x. fst x \<notin> set ns \<or> is_dir (snd x)) ?l1
                   = filter (\<lambda>x. fst x \<notin> set (n # ns) \<or> is_dir (snd x)) l"
    by (auto intro: filter_cong)
  ultimately show ?case using step by simp
qed

lemma sorted_files_split:
  assumes "distinct (map fst l)" "x \<in> set l"
  shows "fst x \<notin> set (take m (sorted_files l)) \<longleftrightarrow> fst x \<in> set (drop m (sorted_files l))"
proof -
  have d: "distinct (sorted_files l)"
    using assms(1) by (simp add: sorted_files_def distinct_map)
  have "set (take m (sorted_files l)) \<inter> set (drop m (sorted_files l)) = {}"
    using d by (metis append_take_drop_id distinct_append)
  moreover have "set (take m (sorted_files l)) \<union> set (drop m (sorted_files l)) = set (sorted_files l)"
    by (metis append_take_drop_id set_append)
  moreover have "fst x \<in> set (sorted_files l)"
    using assms(2) by (simp add: sorted_files_def)
  ultimately show ?thesis by blast
qed

lemma clean_up_old_files_listing:
  assumes "f d = Some l" "distinct (map fst l)" "length l > 10"
  shows "clean_up_old_files d f =
           Inr (f(d \<mapsto> filter (\<lambda>x. fst x \<in> set (drop (length l - 10) (sorted_files l))
                                     \<or> is_dir (snd x)) l))"
proof -
  have len: "length (sorted_files l) = length l" by (simp add: sorted_files_def)
  have "filter (\<lambda>x. fst x \<notin> set (take (length l - 10) (sorted_files l)) \<or> is_dir (snd x)) l
      = filter (\<lambda>x. fst x \<in> set (drop (length l - 10) (sorted_files l)) \<or> is_dir (snd x)) l"
    using sorted_files_split[OF assms(2)] by (intro filter_cong refl) auto
  then show ?thesis
    using assms foldl_try_remove[of f d l "take (length l - 10) (sorted_files l)"]
    by (simp add: clean_up_old_files_def Let_def len)
qed

lemma clean_up_old_files_few:
  assumes "f d = Some l" "length l \<le> 10"
  shows "clean_up_old_files d f = Inr f"
  using assms by (simp add: clean_up_old_files_def Let_def sorted_files_def)

lemma kept_count:
  assumes "distinct (map fst l)" "length l > 10"
  shows "length (filter (\<lambda>x. fst x \<in> set (drop (length l - 10) (sorted_files l))) l) = 10"
proof -
  let ?S = "set (drop (length l - 10) (sorted_files l))"
  have d: "distinct (sorted_files l)"
    using assms(1) by (simp add: sorted_files_def distinct_map)
  have len: "length (sorted_files l) = length l" by (simp add: sorted_files_def)
  have sub: "?S \<subseteq> set (map fst l)"
    using set_drop_subset[of "length l - 10" "sorted_files l"] by (simp add: sorted_files_def)
  have "length (filter (\<lambda>x. fst x \<in> ?S) l) = length (filter (\<lambda>n. n \<in> ?S) (map fst l))"
    by (simp add: filter_map comp_def)
  also have "\<dots> = card (set (filter (\<lambda>n. n \<in> ?S) (map fst l)))"
  proof -
    have "distinct (filter (\<lambda>n. n \<in> ?S) (map fst l))" using assms(1) by simp
    then show ?thesis by (rule distinct_card[symmetric])
  qed
  also have "set (filter (\<lambda>n. n \<in> ?S) (map fst l)) = ?S"
    using sub by auto
  also have "card ?S = length (drop (length l - 10) (sorted_files l))"
  proof -
    have "distinct (drop (length l - 10) (sorted_files l))" using d by simp
    then show ?thesis by (rule distinct_card)
  qed
  also have "\<dots> = 10" using assms(2) len by simp
  finally show ?thesis .
qed

lemma kept_are_latest:
  assumes dist: "distinct (map fst l)"
    and x: "x \<in> set l" "fst x \<in> set (drop m (sorted_files l))"
    and y: "y \<in> set l" "fst y \<notin> set (drop m (sorted_files l))"
  shows "ctime (snd y) \<le> ctime (snd x)"
proof -
  let ?k = "\<lambda>x. ctime (snd x)"
  let ?s = "sort_key ?k l"
  have inj: "inj_on fst (set l)" using dist by (simp add: distinct_map)
  have sf: "sorted_files l = map fst ?s" by (simp add: sorted_files_def)
  have "fst y \<in> set (take m (sorted_files l))"
    using sorted_files_split[OF dist y(1), of m] y(2) by blast
  then obtain y' where y': "y' \<in> set (take m ?s)" "fst y' = fst y"
    by (auto simp: sf take_map)
  then have "y' \<in> set l" using set_take_subset[of m ?s] by auto
  with inj y' y(1) have ytake: "y \<in> set (take m ?s)" by (metis inj_onD)
  obtain x' where x': "x' \<in> set (drop m ?s)" "fst x' = fst x"
    using x(2) by (auto simp: sf drop_map)
  then have "x' \<in> set l" using set_drop_subset[of m ?s] by auto
  with inj x' x(1) have xdrop: "x \<in> set (drop m ?s)" by (metis inj_onD)
  have "sorted (map ?k (take m ?s @ drop m ?s))" by simp
  then have "\<forall>a\<in>set (take m ?s). \<forall>b\<in>set (drop m ?s). ?k a \<le> ?k b"
    unfolding map_append sorted_append by auto
  with ytake xdrop show ?thesis by blast
qed

section \<open>Lemmas: the orchestrator and the endpoint\<close>

lemma body_download_raises:
  assumes "download ev u t (fs w) = (f1, Some msg)"
  shows "download_and_trim_body ev u st et out t w =
           (w\<lparr>fs := f1, trace := trace w @ [Download u t]\<rparr>, Inl (ToolError msg))"
  using assms by (simp add: download_and_trim_body_def)

lemma body_no_video:
  assumes "download ev u t (fs w) = (f1, None)" "f1 t = Some l"
    and "find (\<lambda>f. startswith f ''video.'') (map fst l) = None"
  shows "download_and_trim_body ev u st et out t w =
           (w\<lparr>fs := f1, trace := trace w @ [Download u t]\<rparr>,
            Inl (Exception ''Video file not found after download''))"
  using assms by (simp add: download_and_trim_body_def listdir_def)

lemma body_trim:
  assumes "download ev u t (fs w) = (f1, None)" "f1 t = Some l"
    and "find (\<lambda>f. startswith f ''video.'') (map fst l) = Some vf"
    and "time_to_seconds st = Inr s" "time_to_seconds et = Inr e"
    and "ffmpeg_run ev (t, vf) out s (e - s) f1 = (f2, r2)"
  shows "download_and_trim_body ev u st et out t w =
           (w\<lparr>fs := f2, trace := trace w @ [Download u t, Trim (t, vf) out s (e - s)]\<rparr>,
            case r2 of Some msg \<Rightarrow> Inl (ToolError msg) | None \<Rightarrow> Inr ())"
  using assms by (simp add: download_and_trim_body_def listdir_def Let_def split: option.splits)

lemma orchestrator_result:
  assumes "download_and_trim_body ev u st et out (mkdtemp ev) (w\<lparr>fs := (fs w)(mkdtemp ev \<mapsto> [])\<rparr>) = (w1, r)"
  shows "download_and_trim_video ev u st et out w =
           (w1\<lparr>fs := (fs w1)(mkdtemp ev := None)\<rparr>,
            case r of Inl e \<Rightarrow> Inl (HTTPException 500 (TextExn ''Error processing video: '' e))
                    | Inr _ \<Rightarrow> Inr ())"
  using assms by (simp add: download_and_trim_video_def Let_def)

lemma orchestrator_removes_tempdir:
  "fs (fst (download_and_trim_video ev u st et out w)) (mkdtemp ev) = None"
  by (simp add: download_and_trim_video_def Let_def split: prod.splits)

lemma orchestrator_failure_is_500:
  "snd (download_and_trim_video ev u st et out w) = Inl x \<Longrightarrow>
   \<exists>e. x = HTTPException 500 (TextExn ''Error processing video: '' e)"
  by (auto simp add: download_and_trim_video_def Let_def split: prod.splits sum.splits)

lemma trim_video_validated:
  assumes "time_to_seconds (start_time r) = Inr s" "time_to_seconds (end_time r) = Inr e"
    and "extract_info ev (url r) = Info info" "dict_get info ''duration'' (PInt 0) = PInt d"
    and "\<not> e > d" "\<not> s \<ge> e"
  shows "trim_video ev r w =
           (case snd (download_and_trim_video ev (url r) (start_time r) (end_time r) (output_path ev)
                   (before_orchestration ev r w)) of
              Inl x \<Rightarrow> (after_orchestration ev r w, Inl x)
            | Inr _ \<Rightarrow>
                (case clean_up_old_files (output_dir ev) (fs (after_orchestration ev r w)) of
                   Inl x \<Rightarrow> (after_orchestration ev r w, Inl (Unhandled x))
                 | Inr f \<Rightarrow>
                     ((after_orchestration ev r w)\<lparr>fs := f\<rparr>,
                      Inr \<lparr>path = output_path ev, media_type = ''video/mp4'',
                           filename = snd (output_path ev)\<rparr>)))"
proof -
  have g: "get_video_info ev (url r) w =
             (w\<lparr>trace := trace w @ [Probe (url r)]\<rparr>,
              Inr \<lparr>title = dict_get info ''title'' (PStr ''Unknown Title''),
                   duration = PInt d,
                   thumbnail = dict_get info ''thumbnail'' (PStr [])\<rparr>)"
    using assms(3,4) by (simp add: get_video_info_def Let_def)
  have w2: "w\<lparr>trace := trace w @ [Probe (url r)],
              fs := makedirs (path_join (gettempdir ev) ''video-trimmer'') (fs w)\<rparr>
            = before_orchestration ev r w"
    by (simp add: before_orchestration_def output_dir_def)
  obtain w3 r3 where o: "download_and_trim_video ev (url r) (start_time r) (end_time r)
        (path_join (gettempdir ev) ''video-trimmer'', ''trimmed_video_'' @ now ev @ ''.mp4'')
        (before_orchestration ev r w) = (w3, r3)"
    by fastforce
  have a: "after_orchestration ev r w = w3"
    using o by (simp add: after_orchestration_def output_path_def output_dir_def)
  show ?thesis
  proof (cases r3)
    case (Inl x)
    with o a assms(1,2,5,6) show ?thesis
      by (simp add: trim_video_def g py_gt_def Let_def w2 output_path_def output_dir_def)
  next
    case (Inr u)
    with o a assms(1,2,5,6) show ?thesis
      by (cases "clean_up_old_files (path_join (gettempdir ev) ''video-trimmer'') (fs w3)")
         (simp_all add: trim_video_def g py_gt_def Let_def w2 output_path_def output_dir_def)
  qed
qed

lemma trim_video_success:
  assumes "snd (trim_video ev r w) = Inr resp"
  shows "resp = \<lparr>path = output_path ev, media_type = ''video/mp4'', filename = snd (output_path ev)\<rparr>
       \<and> snd (download_and_trim_video ev (url r) (start_time r) (end_time r) (output_path ev)
                (before_orchestration ev r w)) = Inr ()
       \<and> clean_up_old_files (output_dir ev) (fs (after_orchestration ev r w))
            = Inr (fs (fst (trim_video ev r w)))
       \<and> trace (fst (trim_video ev r w)) = trace (after_orchestration ev r w)"
proof -
  from assms obtain s where s: "time_to_seconds (start_time r) = Inr s"
    by (cases "time_to_seconds (start_time r)") (auto simp: trim_video_def)
  from assms s obtain e where e: "time_to_seconds (end_time r) = Inr e"
    by (cases "time_to_seconds (end_time r)") (auto simp: trim_video_def)
  have ok: "\<not> s \<ge> e"
    using trim_video_rejects_unordered(2)[OF s e, of ev w] assms by auto
  from assms s e obtain info where info: "extract_info ev (url r) = Info info"
    using trim_video_probe_fails[OF s e, of ev w]
      get_video_info_Raises[of ev "url r" _ w] get_video_info_NoInfo[of ev "url r" w]
    by (cases "extract_info ev (url r)") auto
  have "\<not> (\<forall>d. dict_get info ''duration'' (PInt 0) \<noteq> PInt d)"
  proof
    assume "\<forall>d. dict_get info ''duration'' (PInt 0) \<noteq> PInt d"
    from trim_video_type_error[OF s e info this, of w] assms show False by simp
  qed
  then obtain d where d: "dict_get info ''duration'' (PInt 0) = PInt d" by blast
  have le: "\<not> e > d"
    using trim_video_exceeds[OF s e info d, of w] assms by auto
  show ?thesis
    using assms unfolding trim_video_validated[OF s e info d le ok]
    by (auto split: sum.splits)
qed

lemma body_trace:
  "\<exists>evs. trace (fst (download_and_trim_body ev u st et out t w)) = trace w @ Download u t # evs"
  by (auto simp add: download_and_trim_body_def Let_def split: prod.splits option.splits sum.splits)

lemma orchestrator_trace:
  "\<exists>evs. trace (fst (download_and_trim_video ev u st et out w)) =
           trace w @ Download u (mkdtemp ev) # evs"
proof -
  obtain w1 r where b: "download_and_trim_body ev u st et out (mkdtemp ev)
      (w\<lparr>fs := (fs w)(mkdtemp ev \<mapsto> [])\<rparr>) = (w1, r)"
    by fastforce
  from body_trace[of ev u st et out "mkdtemp ev" "w\<lparr>fs := (fs w)(mkdtemp ev \<mapsto> [])\<rparr>"] b
  obtain evs where "trace w1 = trace w @ Download u (mkdtemp ev) # evs" by auto
  then show ?thesis unfolding orchestrator_result[OF b] by simp
qed

lemma trim_video_parsed:
  assumes s: "time_to_seconds (start_time r) = Inr s" and e: "time_to_seconds (end_time r) = Inr e"
  shows "(\<exists>evs. trace (fst (trim_video ev r w)) = trace w @ Probe (url r) # evs)
       \<and> snd (trim_video ev r w) \<noteq> Inl (HTTPException 400 (Text ''Invalid time format. Use HH:MM:SS''))"
proof (cases "extract_info ev (url r)")
  case (Raises msg)
  then show ?thesis
    using trim_video_probe_fails[OF s e get_video_info_Raises[OF Raises]] by simp
next
  case NoInfo
  then show ?thesis
    using trim_video_probe_fails[OF s e get_video_info_NoInfo[OF NoInfo]] by simp
next
  case (Info info)
  show ?thesis
  proof (cases "\<exists>d. dict_get info ''duration'' (PInt 0) = PInt d")
    case False
    then have "\<forall>d. dict_get info ''duration'' (PInt 0) \<noteq> PInt d" by blast
    from trim_video_type_error[OF s e Info this] show ?thesis by simp
  next
    case True
    then obtain d where d: "dict_get info ''duration'' (PInt 0) = PInt d" by blast
    show ?thesis
    proof (cases "e > d")
      case True
      then show ?thesis using trim_video_exceeds[OF s e Info d] by simp
    next
      case le: False
      show ?thesis
      proof (cases "s \<ge> e")
        case True
        then show ?thesis using trim_video_not_before[OF s e Info d le] by simp
      next
        case False
        obtain evs where t: "trace (after_orchestration ev r w) =
            trace w @ Probe (url r) # Download (url r) (mkdtemp ev) # evs"
          using orchestrator_trace[of ev "url r" "start_time r" "end_time r" "output_path ev"
              "before_orchestration ev r w"]
          by (auto simp: after_orchestration_def before_orchestration_def)
        show ?thesis
          unfolding trim_video_validated[OF s e Info d le False]
          using t orchestrator_failure_is_500[of ev "url r" "start_time r" "end_time r"
              "output_path ev" "before_orchestration ev r w"]
          by (auto split: sum.splits)
      qed
    qed
  qed
qed

section \<open>Properties of the time parser and the format check\<close>

text \<open>
  Claim C9. The time parser does not reject a negative field: \<^verbatim>\<open>"00:00:-5"\<close> splits into
  three fields that \<^verbatim>\<open>int\<close> accepts and parses to \<open>-5\<close>, the negative field subtracted,
  not to \<^verbatim>\<open>ValueError\<close>. A request with that start time passes the format check of the
  trim endpoint, whatever the environment: the endpoint goes on to the metadata probe and
  does not answer with the format error.
\<close>

theorem negative_field_accepted:
  "time_to_seconds ''00:00:-5'' = Inr (- 5)
   \<and> three_integer_fields ''00:00:-5''
   \<and> (\<exists>evs. trace (fst (trim_video ev negative_request w)) = trace w @ Probe (url negative_request) # evs)
   \<and> snd (trim_video ev negative_request w)
       \<noteq> Inl (HTTPException 400 (Text ''Invalid time format. Use HH:MM:SS''))"
proof -
  have m: "time_to_seconds (start_time negative_request) = Inr (- 5)"
    and t: "time_to_seconds (end_time negative_request) = Inr 10"
    by (simp_all add: negative_request_def parse_examples parse_more)
  have p: "time_to_seconds ''00:00:-5'' = Inr (- 5)" by (rule parse_more)
  then have f: "three_integer_fields ''00:00:-5''"
    unfolding three_integer_fields_iff by blast
  from p f trim_video_parsed[OF m t, of ev w] show ?thesis by simp
qed

theorem negative_field_accepted_witness:
  "time_to_seconds ''00:00:-5'' = Inr (- 5)
   \<and> trace (fst (trim_video example_env negative_request empty_world)) =
       [Probe ''https://example.com/v'',
        Download ''https://example.com/v'' ''/tmp/tmpk3x9'',
        Trim (''/tmp/tmpk3x9'', ''video.mp4'')
          (''/tmp/video-trimmer'', ''trimmed_video_20240101_120000.mp4'') (- 5) 15]
   \<and> snd (trim_video example_env negative_request empty_world)
       \<noteq> Inl (HTTPException 400 (Text ''Invalid time format. Use HH:MM:SS''))"
proof -
  have "trace (fst (trim_video example_env negative_request empty_world)) =
       [Probe ''https://example.com/v'',
        Download ''https://example.com/v'' ''/tmp/tmpk3x9'',
        Trim (''/tmp/tmpk3x9'', ''video.mp4'')
          (''/tmp/video-trimmer'', ''trimmed_video_20240101_120000.mp4'') (- 5) 15]"
    by (simp add: run_defs env_defs parse_examples parse_more)
  with negative_field_accepted[of example_env empty_world] show ?thesis by simp
qed

text \<open>
  Claim C2, as stated, does not hold. The first string below is of the form
  \<^verbatim>\<open>HH:MM:SS\<close>, its three fields are decimal numerals, and the parser fails on it with
  \<^verbatim>\<open>ValueError\<close>: the last field has 4301 digits, and \<^verbatim>\<open>int\<close> refuses a numeral of more
  than 4300 digits. The second string is not of that form, its first field holding an
  underscore, and the parser returns 36000 for it: \<^verbatim>\<open>int\<close> accepts more than decimal
  numerals.
\<close>

theorem time_to_seconds_counterexample:
  "hms_form (''0:0:'' @ long_field)
   \<and> time_to_seconds (''0:0:'' @ long_field) = Inl ValueError
   \<and> \<not> hms_form ''1_0:0:0''
   \<and> time_to_seconds ''1_0:0:0'' = Inr 36000"
proof -
  have e: "''0:0:'' @ long_field = ''0'' @ '':'' @ ''0'' @ '':'' @ long_field" by simp
  have a: "hms_form (''0:0:'' @ long_field)"
    unfolding hms_form_def using zero_decimal long_field_decimal(1) e by blast
  have b: "time_to_seconds (''0:0:'' @ long_field) = Inl ValueError"
    unfolding e using long_field_decimal(2)
    by (intro time_to_seconds_too_long zero_decimal long_field_decimal(1)) simp
  have c: "\<not> hms_form ''1_0:0:0''"
  proof
    assume "hms_form ''1_0:0:0''"
    from hms_form_split[OF this] show False by (simp add: decimal_def is_digit_def)
  qed
  from a b c parse_more show ?thesis by blast
qed

text \<open>
  Claim C2, amended. The time parser returns a number exactly for the strings that consist
  of three fields separated by two colons, each field being what \<^verbatim>\<open>int\<close> accepts: optional
  white space, an optional sign, decimal digits, at most 4300 of them, in which single
  underscores may stand between digits, and optional white space. The number is then
  \<open>H * 3600 + M * 60 + S\<close>, the three values being those the fields denote; so it is for
  every \<^verbatim>\<open>HH:MM:SS\<close> whose fields are decimal numerals of at most 4300 digits, and
  \<^verbatim>\<open>"01:02:03"\<close> yields 3723 and \<^verbatim>\<open>"00:00:00"\<close> yields 0. Every other string, such
  as \<^verbatim>\<open>"1:2"\<close> or \<^verbatim>\<open>"ab:cd:ef"\<close>, fails with \<^verbatim>\<open>ValueError\<close>, and the trim endpoint
  answers a request with such a start or end time with status 400, before anything else
  happens.
\<close>

theorem time_to_seconds_contract:
  "(time_to_seconds t1 = Inr v \<longleftrightarrow>
      (\<exists>a b c h m s. t1 = a @ '':'' @ b @ '':'' @ c
          \<and> int_literal a h \<and> int_literal b m \<and> int_literal c s
          \<and> v = h * 3600 + m * 60 + s))
   \<and> (decimal hh \<and> decimal mm \<and> decimal ss
        \<and> length hh \<le> int_max_str_digits \<and> length mm \<le> int_max_str_digits
        \<and> length ss \<le> int_max_str_digits \<longrightarrow>
        time_to_seconds (hh @ '':'' @ mm @ '':'' @ ss) =
          Inr (int (dec_val hh) * 3600 + int (dec_val mm) * 60 + int (dec_val ss)))
   \<and> (\<not> three_integer_fields t2 \<longrightarrow> time_to_seconds t2 = Inl ValueError)
   \<and> (\<not> three_integer_fields (start_time r) \<or> \<not> three_integer_fields (end_time r) \<longrightarrow>
        trim_video ev r w = (w, Inl (HTTPException 400 (Text ''Invalid time format. Use HH:MM:SS''))))
   \<and> time_to_seconds ''01:02:03'' = Inr 3723 \<and> time_to_seconds ''00:00:00'' = Inr 0
   \<and> time_to_seconds ''1:2'' = Inl ValueError \<and> time_to_seconds ''ab:cd:ef'' = Inl ValueError"
proof -
  have a: "time_to_seconds t1 = Inr v \<longleftrightarrow>
      (\<exists>a b c h m s. t1 = a @ '':'' @ b @ '':'' @ c
          \<and> int_literal a h \<and> int_literal b m \<and> int_literal c s
          \<and> v = h * 3600 + m * 60 + s)"
    by (rule time_to_seconds_iff)
  have b: "decimal hh \<and> decimal mm \<and> decimal ss
        \<and> length hh \<le> int_max_str_digits \<and> length mm \<le> int_max_str_digits
        \<and> length ss \<le> int_max_str_digits \<longrightarrow>
        time_to_seconds (hh @ '':'' @ mm @ '':'' @ ss) =
          Inr (int (dec_val hh) * 3600 + int (dec_val mm) * 60 + int (dec_val ss))"
    using time_to_seconds_decimal by blast
  have c: "\<not> three_integer_fields t2 \<longrightarrow> time_to_seconds t2 = Inl ValueError"
    using time_to_seconds_not_three by blast
  have d: "\<not> three_integer_fields (start_time r) \<or> \<not> three_integer_fields (end_time r) \<longrightarrow>
        trim_video ev r w = (w, Inl (HTTPException 400 (Text ''Invalid time format. Use HH:MM:SS'')))"
    using time_to_seconds_not_three trim_video_bad_format by blast
  from a b c d parse_more show ?thesis by blast
qed

theorem time_to_seconds_contract_witness:
  "three_integer_fields ''01:02:03'' \<and> decimal ''01'' \<and> decimal ''02'' \<and> decimal ''03''
   \<and> length ''01'' \<le> int_max_str_digits \<and> length ''02'' \<le> int_max_str_digits
   \<and> length ''03'' \<le> int_max_str_digits
   \<and> time_to_seconds ''01:02:03'' = Inr (1 * 3600 + 2 * 60 + 3)
   \<and> \<not> three_integer_fields ''1:2'' \<and> time_to_seconds ''1:2'' = Inl ValueError
   \<and> \<not> three_integer_fields (start_time malformed_request)
   \<and> trim_video example_env malformed_request empty_world
       = (empty_world, Inl (HTTPException 400 (Text ''Invalid time format. Use HH:MM:SS'')))"
proof -
  have h1: "three_integer_fields ''01:02:03''"
    unfolding three_integer_fields_iff using parse_more by blast
  have h2: "decimal ''01''" "decimal ''02''" "decimal ''03''"
    "length ''01'' \<le> int_max_str_digits" "length ''02'' \<le> int_max_str_digits"
    "length ''03'' \<le> int_max_str_digits"
    by (simp_all add: decimal_def is_digit_def int_max_str_digits_def)
  have h3: "\<not> three_integer_fields ''1:2''"
    unfolding three_integer_fields_iff using parse_more by simp
  have h4: "\<not> three_integer_fields (start_time malformed_request)"
    unfolding three_integer_fields_iff using parse_more by (simp add: malformed_request_def)
  have v: "dec_val ''01'' = 1" "dec_val ''02'' = 2" "dec_val ''03'' = 3"
    by (simp_all add: dec_val_def digit_val_def)
  show ?thesis
    using h1 h2 h3 h4 v time_to_seconds_contract[of "''01:02:03''" 3723 "''01''" "''02''" "''03''"
        "''1:2''" malformed_request example_env empty_world]
    by simp
qed

section \<open>Properties of the video-info fetcher\<close>

text \<open>
  Claim C7, as stated, does not hold for every URL. The options of the fetcher tell the
  extraction tool to ignore errors, and the tool then returns nothing instead of raising.
  For such a URL the fetcher returns no record, although the tool has not raised; it
  answers with status 400, and the detail holds the text of the \<^verbatim>\<open>AttributeError\<close> of
  \<^verbatim>\<open>info.get\<close>, not a message of the tool.
\<close>

theorem no_metadata_counterexample:
  "extract_info silent_env ''https://example.com/gone'' = NoInfo
   \<and> snd (get_video_info silent_env ''https://example.com/gone'' empty_world)
       = Inl (HTTPException 400 (TextExn ''Error fetching video info: '' AttributeError))"
  by (simp add: get_video_info_def silent_env_def example_env_def)

text \<open>
  Claim C7, amended. For every URL for which the extraction tool returns metadata, the
  fetcher returns a record whose title is \<^verbatim>\<open>"Unknown Title"\<close>, whose duration is \<open>0\<close> and
  whose thumbnail is the empty string where the metadata lacks the key, and the metadata's
  own value where it has the key. When the tool raises, the fetcher fails with status 400,
  the detail being \<^verbatim>\<open>"Error fetching video info: "\<close> followed by the text of the tool's
  exception. When the tool returns nothing, the fetcher returns no record and fails with
  status 400 as well. A record is returned only when the tool has returned metadata, and
  in every case the probe is the one tool invocation made.
\<close>

theorem get_video_info_contract:
  "(extract_info ev u = Info info \<longrightarrow>
      (\<exists>i. snd (get_video_info ev u w) = Inr i
         \<and> (info ''title'' = None \<longrightarrow> title i = PStr ''Unknown Title'')
         \<and> (info ''duration'' = None \<longrightarrow> duration i = PInt 0)
         \<and> (info ''thumbnail'' = None \<longrightarrow> thumbnail i = PStr [])
         \<and> (\<forall>v. info ''title'' = Some v \<longrightarrow> title i = v)
         \<and> (\<forall>v. info ''duration'' = Some v \<longrightarrow> duration i = v)
         \<and> (\<forall>v. info ''thumbnail'' = Some v \<longrightarrow> thumbnail i = v)))
   \<and> (extract_info ev u' = Raises msg \<longrightarrow>
        snd (get_video_info ev u' w') =
          Inl (HTTPException 400 (TextExn ''Error fetching video info: '' (ToolError msg)))
        \<and> client_error (snd (get_video_info ev u' w')))
   \<and> (extract_info ev u'' = NoInfo \<longrightarrow>
        (\<exists>d. snd (get_video_info ev u'' w'') = Inl (HTTPException 400 d))
        \<and> client_error (snd (get_video_info ev u'' w'')))
   \<and> ((\<exists>i. snd (get_video_info ev u3 w3) = Inr i) \<longleftrightarrow> (\<exists>info'. extract_info ev u3 = Info info'))
   \<and> fst (get_video_info ev u3 w3) = w3\<lparr>trace := trace w3 @ [Probe u3]\<rparr>"
proof -
  have a: "extract_info ev u = Info info \<longrightarrow>
      (\<exists>i. snd (get_video_info ev u w) = Inr i
         \<and> (info ''title'' = None \<longrightarrow> title i = PStr ''Unknown Title'')
         \<and> (info ''duration'' = None \<longrightarrow> duration i = PInt 0)
         \<and> (info ''thumbnail'' = None \<longrightarrow> thumbnail i = PStr [])
         \<and> (\<forall>v. info ''title'' = Some v \<longrightarrow> title i = v)
         \<and> (\<forall>v. info ''duration'' = Some v \<longrightarrow> duration i = v)
         \<and> (\<forall>v. info ''thumbnail'' = Some v \<longrightarrow> thumbnail i = v))"
    using get_video_info_Info[of ev u info w] by (auto simp add: dict_get_def)
  have b: "extract_info ev u' = Raises msg \<longrightarrow>
        snd (get_video_info ev u' w') =
          Inl (HTTPException 400 (TextExn ''Error fetching video info: '' (ToolError msg)))
        \<and> client_error (snd (get_video_info ev u' w'))"
    using get_video_info_Raises[of ev u' msg w'] by (auto simp add: client_error_def)
  have c: "extract_info ev u'' = NoInfo \<longrightarrow>
        (\<exists>d. snd (get_video_info ev u'' w'') = Inl (HTTPException 400 d))
        \<and> client_error (snd (get_video_info ev u'' w''))"
    using get_video_info_NoInfo[of ev u'' w''] by (auto simp add: client_error_def)
  have d: "(\<exists>i. snd (get_video_info ev u3 w3) = Inr i) \<longleftrightarrow> (\<exists>info'. extract_info ev u3 = Info info')"
    using get_video_info_Info[of ev u3 _ w3] get_video_info_Raises[of ev u3 _ w3]
      get_video_info_NoInfo[of ev u3 w3]
    by (cases "extract_info ev u3") auto
  have e: "fst (get_video_info ev u3 w3) = w3\<lparr>trace := trace w3 @ [Probe u3]\<rparr>"
    by (rule get_video_info_world)
  from a b c d e show ?thesis by blast
qed

theorem get_video_info_contract_witness:
  "extract_info untitled_env ''https://example.com/v'' = Info untitled_metadata
   \<and> untitled_metadata ''title'' = None \<and> untitled_metadata ''duration'' = None
   \<and> untitled_metadata ''thumbnail'' = None
   \<and> snd (get_video_info untitled_env ''https://example.com/v'' empty_world)
       = Inr \<lparr>title = PStr ''Unknown Title'', duration = PInt 0, thumbnail = PStr []\<rparr>
   \<and> extract_info unavailable_env ''https://example.com/gone'' = Raises ''Video unavailable''
   \<and> snd (get_video_info unavailable_env ''https://example.com/gone'' empty_world)
       = Inl (HTTPException 400 (TextExn ''Error fetching video info: '' (ToolError ''Video unavailable'')))
   \<and> extract_info silent_env ''https://example.com/gone'' = NoInfo
   \<and> client_error (snd (get_video_info silent_env ''https://example.com/gone'' empty_world))"
proof -
  have h: "extract_info untitled_env ''https://example.com/v'' = Info untitled_metadata"
    "untitled_metadata ''title'' = None" "untitled_metadata ''duration'' = None"
    "untitled_metadata ''thumbnail'' = None"
    "extract_info unavailable_env ''https://example.com/gone'' = Raises ''Video unavailable''"
    "extract_info silent_env ''https://example.com/gone'' = NoInfo"
    by (simp_all add: env_defs)
  from h get_video_info_contract[where ev = untitled_env and u = "''https://example.com/v''"
      and info = untitled_metadata and w = empty_world]
  obtain i where i: "snd (get_video_info untitled_env ''https://example.com/v'' empty_world) = Inr i"
    "title i = PStr ''Unknown Title''" "duration i = PInt 0" "thumbnail i = PStr []"
    by blast
  have r: "i = \<lparr>title = PStr ''Unknown Title'', duration = PInt 0, thumbnail = PStr []\<rparr>"
    using i(2-4) by (cases i) simp
  from h get_video_info_contract[where ev = unavailable_env
      and u' = "''https://example.com/gone''" and msg = "''Video unavailable''" and w' = empty_world]
  have x: "snd (get_video_info unavailable_env ''https://example.com/gone'' empty_world)
       = Inl (HTTPException 400 (TextExn ''Error fetching video info: '' (ToolError ''Video unavailable'')))"
    by blast
  from h get_video_info_contract[where ev = silent_env
      and u'' = "''https://example.com/gone''" and w'' = empty_world]
  have y: "client_error (snd (get_video_info silent_env ''https://example.com/gone'' empty_world))"
    by blast
  from h i(1) r x y show ?thesis by simp
qed

section \<open>Lemmas: example runs\<close>

lemma find_none: "(\<forall>n\<in>set ns. \<not> P n) \<Longrightarrow> find P ns = None"
  by (simp add: find_None_iff)

section \<open>Properties of the checks of the trim endpoint\<close>

text \<open>
  Claim C1, as stated, does not hold. The request below has well-formed times with the
  start after the end. The endpoint rejects it with status 400, but when it does so the
  trace already holds the metadata probe: the order check comes after the probe and the
  duration check.
\<close>

theorem probe_precedes_order_check_counterexample:
  "time_to_seconds (start_time backwards_request) = Inr 10
   \<and> time_to_seconds (end_time backwards_request) = Inr 5
   \<and> trace empty_world = []
   \<and> trace (fst (trim_video example_env backwards_request empty_world))
       = [Probe ''https://example.com/v'']
   \<and> snd (trim_video example_env backwards_request empty_world)
       = Inl (HTTPException 400 (Text ''Start time must be before end time''))"
  by (simp add: run_defs env_defs parse_examples)

text \<open>
  Claim C1, amended. For every trim request whose start and end times are well formed
  with \<open>start_seconds \<ge> end_seconds\<close>, the endpoint invokes the metadata probe, and
  nothing else: no download and no trim are invoked, the file system is unchanged and no
  file response is returned. The answer is a 400-class error whenever the probe raises,
  returns nothing, or reports an integer duration or none.
\<close>

theorem unordered_times_rejected:
  assumes "time_to_seconds (start_time r) = Inr s" "time_to_seconds (end_time r) = Inr e"
    and "s \<ge> e"
  shows "trace (fst (trim_video ev r w)) = trace w @ [Probe (url r)]
       \<and> fs (fst (trim_video ev r w)) = fs w
       \<and> (\<forall>resp. snd (trim_video ev r w) \<noteq> Inr resp)
       \<and> (comparable_duration (extract_info ev (url r)) \<longrightarrow> client_error (snd (trim_video ev r w)))"
  using trim_video_rejects_unordered[OF assms, of ev w] by auto

theorem unordered_times_rejected_witness:
  "time_to_seconds (start_time backwards_request) = Inr 10
   \<and> time_to_seconds (end_time backwards_request) = Inr 5 \<and> (10::int) \<ge> 5
   \<and> comparable_duration (extract_info example_env (url backwards_request))
   \<and> trace (fst (trim_video example_env backwards_request empty_world))
       = trace empty_world @ [Probe (url backwards_request)]
   \<and> client_error (snd (trim_video example_env backwards_request empty_world))"
proof -
  have h: "time_to_seconds (start_time backwards_request) = Inr 10"
    "time_to_seconds (end_time backwards_request) = Inr 5" "(10::int) \<ge> 5"
    by (simp_all add: backwards_request_def parse_examples)
  have c: "comparable_duration (extract_info example_env (url backwards_request))"
    by (simp add: comparable_duration_def dict_get_def env_defs)
  from unordered_times_rejected[OF h, of example_env empty_world] h c show ?thesis by simp
qed

text \<open>
  Claim C5. For every trim request with well-formed times whose end, in seconds, exceeds
  the duration the video-info fetcher reports, the endpoint answers with status 400, the
  detail naming the duration; the only tool invoked is the metadata probe, so no download
  occurs, and the file system is unchanged.
\<close>

theorem end_beyond_duration_rejected:
  assumes "time_to_seconds (start_time r) = Inr s" "time_to_seconds (end_time r) = Inr e"
    and "snd (get_video_info ev (url r) w) = Inr i" "duration i = PInt d"
    and "e > d"
  shows "snd (trim_video ev r w) =
           Inl (HTTPException 400
             (Text (''End time exceeds video duration ('' @ str_int d @ '' seconds)'')))
       \<and> client_error (snd (trim_video ev r w))
       \<and> trace (fst (trim_video ev r w)) = trace w @ [Probe (url r)]
       \<and> fs (fst (trim_video ev r w)) = fs w"
proof -
  from assms(3) obtain info where info: "extract_info ev (url r) = Info info"
    by (cases "extract_info ev (url r)") (auto simp: get_video_info_def Let_def)
  from get_video_info_Info[OF info, of w] assms(3,4)
  have d: "dict_get info ''duration'' (PInt 0) = PInt d" by auto
  show ?thesis
    unfolding trim_video_exceeds[OF assms(1,2) info d assms(5)]
    by (simp add: client_error_def)
qed

theorem end_beyond_duration_rejected_witness:
  "time_to_seconds (start_time long_request) = Inr 5
   \<and> time_to_seconds (end_time long_request) = Inr 120
   \<and> snd (get_video_info example_env (url long_request) empty_world)
       = Inr \<lparr>title = PStr ''Clip'', duration = PInt 100, thumbnail = PStr []\<rparr>
   \<and> (120::int) > 100
   \<and> snd (trim_video example_env long_request empty_world) =
           Inl (HTTPException 400 (Text ''End time exceeds video duration (100 seconds)''))
   \<and> trace (fst (trim_video example_env long_request empty_world))
       = [Probe ''https://example.com/v'']"
proof -
  have h: "time_to_seconds (start_time long_request) = Inr 5"
    "time_to_seconds (end_time long_request) = Inr 120"
    by (simp_all add: long_request_def parse_examples)
  have g: "snd (get_video_info example_env (url long_request) empty_world)
       = Inr \<lparr>title = PStr ''Clip'', duration = PInt 100, thumbnail = PStr []\<rparr>"
    by (simp add: run_defs env_defs)
  have t: "trace empty_world = []" "url long_request = ''https://example.com/v''"
    by (simp_all add: env_defs)
  from end_beyond_duration_rejected[OF h g, of 100] h g t str_int_examples
  show ?thesis by simp
qed

text \<open>
  Claim C10. When the metadata of the extraction tool lacks a duration, the fallback \<open>0\<close>
  applies, and every trim request with well-formed, non-negative times is rejected with a
  400-class error: a positive end exceeds the duration, and an end of \<open>0\<close> is not after the
  start. Only the probe is invoked; the download is never reached.
\<close>

theorem missing_duration_rejects:
  assumes "time_to_seconds (start_time r) = Inr s" "0 \<le> s"
    and "time_to_seconds (end_time r) = Inr e" "0 \<le> e"
    and "extract_info ev (url r) = Info info" "info ''duration'' = None"
  shows "client_error (snd (trim_video ev r w))
       \<and> (0 < e \<longrightarrow> snd (trim_video ev r w) =
             Inl (HTTPException 400 (Text ''End time exceeds video duration (0 seconds)'')))
       \<and> (e = 0 \<longrightarrow> snd (trim_video ev r w) =
             Inl (HTTPException 400 (Text ''Start time must be before end time'')))
       \<and> trace (fst (trim_video ev r w)) = trace w @ [Probe (url r)]
       \<and> fs (fst (trim_video ev r w)) = fs w"
proof -
  have d: "dict_get info ''duration'' (PInt 0) = PInt 0"
    using assms(6) by (simp add: dict_get_def)
  show ?thesis
  proof (cases "0 < e")
    case True
    show ?thesis
      unfolding trim_video_exceeds[OF assms(1,3,5) d True]
      using True by (simp add: client_error_def str_int_examples)
  next
    case False
    with assms(4) have e0: "e = 0" by simp
    have ge: "s \<ge> e" using assms(2) e0 by simp
    show ?thesis
      unfolding trim_video_not_before[OF assms(1,3,5) d False ge]
      using e0 by (simp add: client_error_def)
  qed
qed

theorem missing_duration_rejects_witness:
  "time_to_seconds (start_time example_request) = Inr 5 \<and> (0::int) \<le> 5
   \<and> time_to_seconds (end_time example_request) = Inr 10 \<and> (0::int) \<le> 10
   \<and> extract_info untitled_env (url example_request) = Info untitled_metadata
   \<and> untitled_metadata ''duration'' = None
   \<and> snd (trim_video untitled_env example_request empty_world) =
             Inl (HTTPException 400 (Text ''End time exceeds video duration (0 seconds)''))
   \<and> trace (fst (trim_video untitled_env example_request empty_world))
        = [Probe ''https://example.com/v'']"
proof -
  have h: "time_to_seconds (start_time example_request) = Inr 5" "(0::int) \<le> 5"
    "time_to_seconds (end_time example_request) = Inr 10" "(0::int) \<le> 10"
    "extract_info untitled_env (url example_request) = Info untitled_metadata"
    "untitled_metadata ''duration'' = None"
    by (simp_all add: env_defs parse_examples)
  have t: "trace empty_world = []" "url example_request = ''https://example.com/v''"
    by (simp_all add: env_defs)
  from missing_duration_rejects[OF h, of empty_world] h t show ?thesis by simp
qed

section \<open>Properties of the orchestrator\<close>

text \<open>
  Claim C6. For every call of the orchestrator, whether it returns or raises, the scoped
  temporary directory is absent from the file system the call leaves, and no path below it
  exists.
\<close>

theorem temporary_directory_removed:
  "fs (fst (download_and_trim_video ev u st et out w)) (mkdtemp ev) = None
   \<and> (\<forall>n. \<not> path_exists (mkdtemp ev, n) (fs (fst (download_and_trim_video ev u st et out w))))"
  using orchestrator_removes_tempdir[of ev u st et out w]
  by (simp add: path_exists_def)

theorem temporary_directory_removed_witness:
  "snd (download_and_trim_video example_env ''https://example.com/v'' ''00:00:05'' ''00:00:10''
          (''/tmp/video-trimmer'', ''out.mp4'') empty_world) = Inr ()
   \<and> fs (fst (download_and_trim_video example_env ''https://example.com/v'' ''00:00:05'' ''00:00:10''
          (''/tmp/video-trimmer'', ''out.mp4'') empty_world)) (mkdtemp example_env) = None
   \<and> snd (download_and_trim_video offline_env ''https://example.com/v'' ''00:00:05'' ''00:00:10''
          (''/tmp/video-trimmer'', ''out.mp4'') empty_world)
       = Inl (HTTPException 500 (TextExn ''Error processing video: '' (ToolError ''Connection reset'')))
   \<and> fs (fst (download_and_trim_video offline_env ''https://example.com/v'' ''00:00:05'' ''00:00:10''
          (''/tmp/video-trimmer'', ''out.mp4'') empty_world)) (mkdtemp offline_env) = None"
proof -
  have a: "snd (download_and_trim_video example_env ''https://example.com/v'' ''00:00:05'' ''00:00:10''
          (''/tmp/video-trimmer'', ''out.mp4'') empty_world) = Inr ()"
    by (simp add: run_defs env_defs parse_examples)
  have b: "snd (download_and_trim_video offline_env ''https://example.com/v'' ''00:00:05'' ''00:00:10''
          (''/tmp/video-trimmer'', ''out.mp4'') empty_world)
       = Inl (HTTPException 500 (TextExn ''Error processing video: '' (ToolError ''Connection reset'')))"
    by (simp add: run_defs env_defs parse_examples)
  from a b
    temporary_directory_removed[of example_env "''https://example.com/v''" "''00:00:05''"
      "''00:00:10''" "(''/tmp/video-trimmer'', ''out.mp4'')" empty_world]
    temporary_directory_removed[of offline_env "''https://example.com/v''" "''00:00:05''"
      "''00:00:10''" "(''/tmp/video-trimmer'', ''out.mp4'')" empty_world]
  show ?thesis by blast
qed

text \<open>
  Claim C8. When the download returns without raising and no name in the scoped temporary
  directory starts with \<^verbatim>\<open>video.\<close>, the orchestrator fails with status 500, the detail
  being \<^verbatim>\<open>"Error processing video: Video file not found after download"\<close>; the trim tool
  is not invoked, the download being the only event of the call.
\<close>

theorem missing_download_detected:
  assumes "download ev u (mkdtemp ev) ((fs w)(mkdtemp ev \<mapsto> [])) = (f1, None)"
    and "f1 (mkdtemp ev) = Some l"
    and "\<forall>n\<in>set (map fst l). \<not> startswith n ''video.''"
  shows "snd (download_and_trim_video ev u st et out w) =
           Inl (HTTPException 500
             (TextExn ''Error processing video: '' (Exception ''Video file not found after download'')))
       \<and> trace (fst (download_and_trim_video ev u st et out w)) = trace w @ [Download u (mkdtemp ev)]
       \<and> fs (fst (download_and_trim_video ev u st et out w)) = f1(mkdtemp ev := None)"
proof -
  have n: "find (\<lambda>f. startswith f ''video.'') (map fst l) = None"
    using assms(3) by (rule find_none)
  have d: "download ev u (mkdtemp ev) (fs (w\<lparr>fs := (fs w)(mkdtemp ev \<mapsto> [])\<rparr>)) = (f1, None)"
    using assms(1) by simp
  show ?thesis
    unfolding orchestrator_result[OF body_no_video[OF d assms(2) n]] by simp
qed

theorem missing_download_detected_witness:
  "download misnaming_env ''https://example.com/v'' (mkdtemp misnaming_env)
       ((fs empty_world)(mkdtemp misnaming_env \<mapsto> []))
     = (add_file (mkdtemp misnaming_env, ''clip.mp4'') 900
          ((fs empty_world)(mkdtemp misnaming_env \<mapsto> [])), None)
   \<and> add_file (mkdtemp misnaming_env, ''clip.mp4'') 900
          ((fs empty_world)(mkdtemp misnaming_env \<mapsto> [])) (mkdtemp misnaming_env)
        = Some [plain_file ''clip.mp4'' 900]
   \<and> \<not> startswith ''clip.mp4'' ''video.''
   \<and> snd (download_and_trim_video misnaming_env ''https://example.com/v'' ''00:00:05'' ''00:00:10''
          (''/tmp/video-trimmer'', ''out.mp4'') empty_world) =
           Inl (HTTPException 500
             (TextExn ''Error processing video: '' (Exception ''Video file not found after download'')))
   \<and> trace (fst (download_and_trim_video misnaming_env ''https://example.com/v'' ''00:00:05''
          ''00:00:10'' (''/tmp/video-trimmer'', ''out.mp4'') empty_world))
       = [Download ''https://example.com/v'' ''/tmp/tmpk3x9'']"
proof -
  have h1: "download misnaming_env ''https://example.com/v'' (mkdtemp misnaming_env)
       ((fs empty_world)(mkdtemp misnaming_env \<mapsto> []))
     = (add_file (mkdtemp misnaming_env, ''clip.mp4'') 900
          ((fs empty_world)(mkdtemp misnaming_env \<mapsto> [])), None)"
    by (simp add: misnaming_env_def writes_other_def)
  have h2: "add_file (mkdtemp misnaming_env, ''clip.mp4'') 900
          ((fs empty_world)(mkdtemp misnaming_env \<mapsto> [])) (mkdtemp misnaming_env)
        = Some [plain_file ''clip.mp4'' 900]"
    by (simp add: add_file_def plain_file_def)
  have h3: "\<forall>n\<in>set (map fst [plain_file ''clip.mp4'' 900]). \<not> startswith n ''video.''"
    by (simp add: plain_file_def startswith_def)
  have t: "trace empty_world = []" "mkdtemp misnaming_env = ''/tmp/tmpk3x9''"
    by (simp_all add: env_defs)
  from missing_download_detected[OF h1 h2 h3, of "''00:00:05''" "''00:00:10''"
      "(''/tmp/video-trimmer'', ''out.mp4'')"] h1 h2 h3 t
  show ?thesis by (simp add: plain_file_def)
qed

text \<open>
  Claim C4, as stated, does not hold. Here the trim tool writes to the output path and then
  raises. The endpoint answers with status 500, and the output path, which did not exist
  before the request, exists after it: nothing in the module removes what the failing tool
  left there.
\<close>

theorem partial_output_left_counterexample:
  "snd (trim_video partial_env example_request empty_world) =
     Inl (HTTPException 500
       (TextExn ''Error processing video: ''
          (ToolError ''ffmpeg error (see stderr output for detail)'')))
   \<and> \<not> path_exists (output_path partial_env) (fs empty_world)
   \<and> path_exists (output_path partial_env)
        (fs (fst (trim_video partial_env example_request empty_world)))"
  by (simp add: run_defs env_defs parse_examples)

text \<open>
  Claim C4, amended. For every run of the orchestrator in which the download or the trim
  raises, the failure is surfaced as status 500, the detail being
  \<^verbatim>\<open>"Error processing video: "\<close> followed by the text of the tool's exception, and the
  endpoint returns no file response. The orchestrator removes its temporary directory and
  nothing else: the rest of the file system, the output path included, is as the failing
  tool left it.
\<close>

theorem tool_failure_surfaced:
  "(download ev u (mkdtemp ev) ((fs w)(mkdtemp ev \<mapsto> [])) = (f1, Some msg) \<longrightarrow>
      download_and_trim_video ev u st et out w =
        (w\<lparr>fs := f1(mkdtemp ev := None), trace := trace w @ [Download u (mkdtemp ev)]\<rparr>,
         Inl (HTTPException 500 (TextExn ''Error processing video: '' (ToolError msg)))))
   \<and> (download ev u' (mkdtemp ev) ((fs w')(mkdtemp ev \<mapsto> [])) = (g1, None)
        \<and> g1 (mkdtemp ev) = Some l
        \<and> find (\<lambda>f. startswith f ''video.'') (map fst l) = Some vf
        \<and> time_to_seconds st' = Inr s \<and> time_to_seconds et' = Inr e
        \<and> ffmpeg_run ev (mkdtemp ev, vf) out' s (e - s) g1 = (g2, Some msg') \<longrightarrow>
      download_and_trim_video ev u' st' et' out' w' =
        (w'\<lparr>fs := g2(mkdtemp ev := None),
            trace := trace w' @ [Download u' (mkdtemp ev), Trim (mkdtemp ev, vf) out' s (e - s)]\<rparr>,
         Inl (HTTPException 500 (TextExn ''Error processing video: '' (ToolError msg')))))
   \<and> (snd (download_and_trim_video ev (url r) (start_time r) (end_time r) (output_path ev)
              (before_orchestration ev r w'')) = Inl x \<longrightarrow>
        (\<forall>resp. snd (trim_video ev r w'') \<noteq> Inr resp))"
proof -
  have a: "download ev u (mkdtemp ev) ((fs w)(mkdtemp ev \<mapsto> [])) = (f1, Some msg) \<longrightarrow>
      download_and_trim_video ev u st et out w =
        (w\<lparr>fs := f1(mkdtemp ev := None), trace := trace w @ [Download u (mkdtemp ev)]\<rparr>,
         Inl (HTTPException 500 (TextExn ''Error processing video: '' (ToolError msg))))"
  proof
    assume "download ev u (mkdtemp ev) ((fs w)(mkdtemp ev \<mapsto> [])) = (f1, Some msg)"
    then have d: "download ev u (mkdtemp ev) (fs (w\<lparr>fs := (fs w)(mkdtemp ev \<mapsto> [])\<rparr>)) = (f1, Some msg)"
      by simp
    show "download_and_trim_video ev u st et out w =
        (w\<lparr>fs := f1(mkdtemp ev := None), trace := trace w @ [Download u (mkdtemp ev)]\<rparr>,
         Inl (HTTPException 500 (TextExn ''Error processing video: '' (ToolError msg))))"
      unfolding orchestrator_result[OF body_download_raises[OF d]] by simp
  qed
  have b: "download ev u' (mkdtemp ev) ((fs w')(mkdtemp ev \<mapsto> [])) = (g1, None)
        \<and> g1 (mkdtemp ev) = Some l
        \<and> find (\<lambda>f. startswith f ''video.'') (map fst l) = Some vf
        \<and> time_to_seconds st' = Inr s \<and> time_to_seconds et' = Inr e
        \<and> ffmpeg_run ev (mkdtemp ev, vf) out' s (e - s) g1 = (g2, Some msg') \<longrightarrow>
      download_and_trim_video ev u' st' et' out' w' =
        (w'\<lparr>fs := g2(mkdtemp ev := None),
            trace := trace w' @ [Download u' (mkdtemp ev), Trim (mkdtemp ev, vf) out' s (e - s)]\<rparr>,
         Inl (HTTPException 500 (TextExn ''Error processing video: '' (ToolError msg'))))"
  proof
    assume h: "download ev u' (mkdtemp ev) ((fs w')(mkdtemp ev \<mapsto> [])) = (g1, None)
        \<and> g1 (mkdtemp ev) = Some l
        \<and> find (\<lambda>f. startswith f ''video.'') (map fst l) = Some vf
        \<and> time_to_seconds st' = Inr s \<and> time_to_seconds et' = Inr e
        \<and> ffmpeg_run ev (mkdtemp ev, vf) out' s (e - s) g1 = (g2, Some msg')"
    then have d: "download ev u' (mkdtemp ev) (fs (w'\<lparr>fs := (fs w')(mkdtemp ev \<mapsto> [])\<rparr>)) = (g1, None)"
      by simp
    from h have h2: "g1 (mkdtemp ev) = Some l"
      and h3: "find (\<lambda>f. startswith f ''video.'') (map fst l) = Some vf"
      and h4: "time_to_seconds st' = Inr s" and h5: "time_to_seconds et' = Inr e"
      and h6: "ffmpeg_run ev (mkdtemp ev, vf) out' s (e - s) g1 = (g2, Some msg')"
      by blast+
    show "download_and_trim_video ev u' st' et' out' w' =
        (w'\<lparr>fs := g2(mkdtemp ev := None),
            trace := trace w' @ [Download u' (mkdtemp ev), Trim (mkdtemp ev, vf) out' s (e - s)]\<rparr>,
         Inl (HTTPException 500 (TextExn ''Error processing video: '' (ToolError msg'))))"
      unfolding orchestrator_result[OF body_trim[OF d h2 h3 h4 h5 h6]] by simp
  qed
  have c: "snd (download_and_trim_video ev (url r) (start_time r) (end_time r) (output_path ev)
              (before_orchestration ev r w'')) = Inl x \<longrightarrow>
        (\<forall>resp. snd (trim_video ev r w'') \<noteq> Inr resp)"
    using trim_video_success[of ev r w''] by auto
  from a b c show ?thesis by blast
qed

theorem tool_failure_surfaced_witness:
  "snd (download offline_env ''https://example.com/v'' (mkdtemp offline_env)
          ((fs empty_world)(mkdtemp offline_env \<mapsto> []))) = Some ''Connection reset''
   \<and> snd (download_and_trim_video offline_env ''https://example.com/v'' ''00:00:05'' ''00:00:10''
          (output_path offline_env) empty_world)
       = Inl (HTTPException 500 (TextExn ''Error processing video: '' (ToolError ''Connection reset'')))
   \<and> snd (ffmpeg_run partial_env (mkdtemp partial_env, ''video.mp4'') (output_path partial_env) 5 (10 - 5)
          (fst (download partial_env ''https://example.com/v'' (mkdtemp partial_env)
             ((fs empty_world)(mkdtemp partial_env \<mapsto> [])))))
       = Some ''ffmpeg error (see stderr output for detail)''
   \<and> download_and_trim_video partial_env ''https://example.com/v'' ''00:00:05'' ''00:00:10''
          (output_path partial_env) empty_world
       = (empty_world\<lparr>fs := (add_file (output_path partial_env) 1000
              (add_file (mkdtemp partial_env, ''video.mp4'') 900
                 ((fs empty_world)(mkdtemp partial_env \<mapsto> []))))(mkdtemp partial_env := None),
            trace := trace empty_world @ [Download ''https://example.com/v'' (mkdtemp partial_env),
               Trim (mkdtemp partial_env, ''video.mp4'') (output_path partial_env) 5 (10 - 5)]\<rparr>,
          Inl (HTTPException 500 (TextExn ''Error processing video: ''
                 (ToolError ''ffmpeg error (see stderr output for detail)''))))
   \<and> (\<forall>resp. snd (trim_video partial_env example_request empty_world) \<noteq> Inr resp)"
proof -
  let ?u = "''https://example.com/v''"
  let ?f0 = "(fs empty_world)(mkdtemp offline_env \<mapsto> [])"
  let ?g0 = "(fs empty_world)(mkdtemp partial_env \<mapsto> [])"
  let ?g1 = "add_file (mkdtemp partial_env, ''video.mp4'') 900 ?g0"
  let ?g2 = "add_file (output_path partial_env) 1000 ?g1"
  have a: "download offline_env ?u (mkdtemp offline_env) ?f0 =
             (add_file (mkdtemp offline_env, ''video.mp4.part'') 900 ?f0, Some ''Connection reset'')"
    by (simp add: offline_env_def download_breaks_def)
  have b1: "download partial_env ?u (mkdtemp partial_env) ?g0 = (?g1, None)"
    by (simp add: partial_env_def example_env_def writes_video_def)
  have b2: "?g1 (mkdtemp partial_env) = Some [plain_file ''video.mp4'' 900]"
    by (simp add: add_file_def plain_file_def)
  have b3: "find (\<lambda>f. startswith f ''video.'') (map fst [plain_file ''video.mp4'' 900]) = Some ''video.mp4''"
    by (simp add: plain_file_def startswith_def)
  have b6: "ffmpeg_run partial_env (mkdtemp partial_env, ''video.mp4'') (output_path partial_env) 5 (10 - 5) ?g1
             = (?g2, Some ''ffmpeg error (see stderr output for detail)'')"
    by (simp add: partial_env_def trim_breaks_def)
  have c: "snd (download_and_trim_video partial_env (url example_request) (start_time example_request)
              (end_time example_request) (output_path partial_env)
              (before_orchestration partial_env example_request empty_world))
           = Inl (HTTPException 500 (TextExn ''Error processing video: ''
                 (ToolError ''ffmpeg error (see stderr output for detail)'')))"
    by (simp add: run_defs env_defs parse_examples)
  note t = tool_failure_surfaced[where ev = offline_env and u = ?u and w = empty_world
      and st = "''00:00:05''" and et = "''00:00:10''" and out = "output_path offline_env",
      THEN conjunct1, rule_format, OF a]
  note t2 = tool_failure_surfaced[where ev = partial_env and u' = ?u and w' = empty_world
      and st' = "''00:00:05''" and et' = "''00:00:10''" and out' = "output_path partial_env"
      and s = 5 and e = 10,
      THEN conjunct2, THEN conjunct1, rule_format, OF conjI[OF b1 conjI[OF b2 conjI[OF b3
        conjI[OF parse_examples(1) conjI[OF parse_examples(2) b6]]]]]]
  note t3 = tool_failure_surfaced[where ev = partial_env and r = example_request
      and w'' = empty_world, THEN conjunct2, THEN conjunct2, rule_format, OF c]
  show ?thesis
    using a b1 b6 t t2 t3 by simp
qed

section \<open>Properties of retention\<close>

text \<open>
  Claim C3, as stated, does not hold. The output directory below holds nine files and a
  subdirectory, which is its oldest entry. The trim succeeds and adds its file, so that the
  directory holds eleven entries; the retention pass tries to remove the oldest, the
  removal of a directory raises, the exception is swallowed, and all eleven entries stay.
\<close>

theorem retention_leaves_directory_counterexample:
  "snd (trim_video example_env example_request subdir_world) =
     Inr \<lparr>path = (''/tmp/video-trimmer'', ''trimmed_video_20240101_120000.mp4''),
          media_type = ''video/mp4'', filename = ''trimmed_video_20240101_120000.mp4''\<rparr>
   \<and> map_option (map fst) (fs (fst (trim_video example_env example_request subdir_world))
        ''/tmp/video-trimmer'')
       = Some [''b.mp4'', ''cache'', ''c.mp4'', ''d.mp4'', ''e.mp4'', ''f.mp4'', ''g.mp4'',
               ''h.mp4'', ''i.mp4'', ''j.mp4'', ''trimmed_video_20240101_120000.mp4'']
   \<and> map_option length (fs (fst (trim_video example_env example_request subdir_world))
        ''/tmp/video-trimmer'') = Some 11"
  by (simp add: run_defs env_defs parse_examples)

text \<open>
  Claim C3, amended. For every successful trim after which the output directory holds more
  than 10 entries, the retention pass keeps the 10 most recently created entries (the last
  ten of the listing sorted by creation time, no entry outside them being younger than
  one of them), deletes every regular file among the others, and leaves in place an
  entry whose removal fails, that is a subdirectory. When all entries are regular files,
  exactly 10 remain; in particular a directory of 15 files holds, after a further
  successful trim, the 10 most recently created of those 15 and the new file.
\<close>

theorem retention_keeps_latest:
  assumes "snd (trim_video ev r w) = Inr resp"
    and "fs (after_orchestration ev r w) (output_dir ev) = Some l"
    and "distinct (map fst l)" and "length l > 10"
  shows "fs (fst (trim_video ev r w)) =
           (fs (after_orchestration ev r w))
             (output_dir ev \<mapsto> filter (\<lambda>x. fst x \<in> set (ten_latest l) \<or> is_dir (snd x)) l)
       \<and> length (ten_latest l) = 10 \<and> distinct (ten_latest l)
       \<and> set (ten_latest l) \<subseteq> fst ` set l
       \<and> (\<forall>x\<in>set l. \<forall>y\<in>set l. fst x \<in> set (ten_latest l) \<and> fst y \<notin> set (ten_latest l)
             \<longrightarrow> ctime (snd y) \<le> ctime (snd x))
       \<and> (list_all regular l \<longrightarrow>
            filter (\<lambda>x. fst x \<in> set (ten_latest l) \<or> is_dir (snd x)) l
              = filter (\<lambda>x. fst x \<in> set (ten_latest l)) l
            \<and> length (filter (\<lambda>x. fst x \<in> set (ten_latest l)) l) = 10)"
proof -
  have c: "clean_up_old_files (output_dir ev) (fs (after_orchestration ev r w))
             = Inr (fs (fst (trim_video ev r w)))"
    using trim_video_success[OF assms(1)] by blast
  have p1: "fs (fst (trim_video ev r w)) =
           (fs (after_orchestration ev r w))
             (output_dir ev \<mapsto> filter (\<lambda>x. fst x \<in> set (ten_latest l) \<or> is_dir (snd x)) l)"
    using c assms(2,3,4)
      clean_up_old_files_listing[of "fs (after_orchestration ev r w)" "output_dir ev" l]
    by (simp add: ten_latest_def)
  have len: "length (sorted_files l) = length l" by (simp add: sorted_files_def)
  have p2: "length (ten_latest l) = 10" using assms(4) len by (simp add: ten_latest_def)
  have p3: "distinct (ten_latest l)"
    using assms(3) by (simp add: ten_latest_def sorted_files_def distinct_map)
  have p4: "set (ten_latest l) \<subseteq> fst ` set l"
    using set_drop_subset[of "length l - 10" "sorted_files l"]
    by (simp add: ten_latest_def sorted_files_def)
  have p5: "\<forall>x\<in>set l. \<forall>y\<in>set l. fst x \<in> set (ten_latest l) \<and> fst y \<notin> set (ten_latest l)
             \<longrightarrow> ctime (snd y) \<le> ctime (snd x)"
    using kept_are_latest[OF assms(3)] unfolding ten_latest_def by blast
  have p6: "list_all regular l \<longrightarrow>
            filter (\<lambda>x. fst x \<in> set (ten_latest l) \<or> is_dir (snd x)) l
              = filter (\<lambda>x. fst x \<in> set (ten_latest l)) l
            \<and> length (filter (\<lambda>x. fst x \<in> set (ten_latest l)) l) = 10"
  proof
    assume "list_all regular l"
    then have "\<forall>x\<in>set l. \<not> is_dir (snd x)" by (simp add: list_all_iff regular_def)
    then have "filter (\<lambda>x. fst x \<in> set (ten_latest l) \<or> is_dir (snd x)) l
              = filter (\<lambda>x. fst x \<in> set (ten_latest l)) l"
      by (intro filter_cong refl) auto
    then show "filter (\<lambda>x. fst x \<in> set (ten_latest l) \<or> is_dir (snd x)) l
              = filter (\<lambda>x. fst x \<in> set (ten_latest l)) l
            \<and> length (filter (\<lambda>x. fst x \<in> set (ten_latest l)) l) = 10"
      using kept_count[OF assms(3,4)] by (simp add: ten_latest_def)
  qed
  from p1 p2 p3 p4 p5 p6 show ?thesis by blast
qed

theorem retention_keeps_latest_witness:
  "snd (trim_video example_env example_request crowded_world) =
     Inr \<lparr>path = (''/tmp/video-trimmer'', ''trimmed_video_20240101_120000.mp4''),
          media_type = ''video/mp4'', filename = ''trimmed_video_20240101_120000.mp4''\<rparr>
   \<and> fs (after_orchestration example_env example_request crowded_world) (output_dir example_env)
       = Some (fifteen_files @ [plain_file ''trimmed_video_20240101_120000.mp4'' 1000])
   \<and> distinct (map fst (fifteen_files @ [plain_file ''trimmed_video_20240101_120000.mp4'' 1000]))
   \<and> length (fifteen_files @ [plain_file ''trimmed_video_20240101_120000.mp4'' 1000]) > 10
   \<and> list_all regular (fifteen_files @ [plain_file ''trimmed_video_20240101_120000.mp4'' 1000])
   \<and> ten_latest (fifteen_files @ [plain_file ''trimmed_video_20240101_120000.mp4'' 1000])
       = [''g.mp4'', ''h.mp4'', ''i.mp4'', ''j.mp4'', ''k.mp4'', ''l.mp4'', ''m.mp4'', ''n.mp4'',
          ''o.mp4'', ''trimmed_video_20240101_120000.mp4'']
   \<and> fs (fst (trim_video example_env example_request crowded_world)) (output_dir example_env)
       = Some [plain_file ''o.mp4'' 15, plain_file ''n.mp4'' 14, plain_file ''g.mp4'' 7,
               plain_file ''h.mp4'' 8, plain_file ''m.mp4'' 13, plain_file ''i.mp4'' 9,
               plain_file ''j.mp4'' 10, plain_file ''k.mp4'' 11, plain_file ''l.mp4'' 12,
               plain_file ''trimmed_video_20240101_120000.mp4'' 1000]"
proof -
  let ?l = "fifteen_files @ [plain_file ''trimmed_video_20240101_120000.mp4'' 1000]"
  have h1: "snd (trim_video example_env example_request crowded_world) =
     Inr \<lparr>path = (''/tmp/video-trimmer'', ''trimmed_video_20240101_120000.mp4''),
          media_type = ''video/mp4'', filename = ''trimmed_video_20240101_120000.mp4''\<rparr>"
    by (simp add: run_defs env_defs parse_examples)
  have h2: "fs (after_orchestration example_env example_request crowded_world)
              (output_dir example_env) = Some ?l"
    by (simp add: run_defs env_defs parse_examples)
  have h3: "distinct (map fst ?l)" by (simp add: env_defs)
  have h4: "length ?l > 10" by (simp add: env_defs)
  have h5: "list_all regular ?l" by (simp add: env_defs regular_def)
  have k: "ten_latest ?l = [''g.mp4'', ''h.mp4'', ''i.mp4'', ''j.mp4'', ''k.mp4'', ''l.mp4'',
             ''m.mp4'', ''n.mp4'', ''o.mp4'', ''trimmed_video_20240101_120000.mp4'']"
    by (simp add: ten_latest_def sorted_files_def env_defs)
  from retention_keeps_latest[OF h1 h2 h3 h4]
  have "fs (fst (trim_video example_env example_request crowded_world)) (output_dir example_env)
          = Some (filter (\<lambda>x. fst x \<in> set (ten_latest ?l) \<or> is_dir (snd x)) ?l)"
    by simp
  also have "filter (\<lambda>x. fst x \<in> set (ten_latest ?l) \<or> is_dir (snd x)) ?l =
     [plain_file ''o.mp4'' 15, plain_file ''n.mp4'' 14, plain_file ''g.mp4'' 7,
               plain_file ''h.mp4'' 8, plain_file ''m.mp4'' 13, plain_file ''i.mp4'' 9,
               plain_file ''j.mp4'' 10, plain_file ''k.mp4'' 11, plain_file ''l.mp4'' 12,
               plain_file ''trimmed_video_20240101_120000.mp4'' 1000]"
    unfolding k by (simp add: env_defs)
  finally show ?thesis using h1 h2 h3 h4 h5 k by blast
qed

end
